theory Spec2Isabelle
  imports Main "HOL-Library.AList" "HOL-Library.Sublist" "HOL-Library.Word"
begin

section \<open>The IAM policy patch scripts of \<open>src/lambdas/auth-handler\<close>\<close>

text \<open>
  The three scripts \<^verbatim>\<open>update-policy.py\<close>, \<^verbatim>\<open>update-telnyx-policy.py\<close> and
  \<^verbatim>\<open>update-short-urls-policy.py\<close> read an IAM policy document as JSON, look for the
  first statement that grants a capability and make sure a resource ARN is listed in it.
  The model starts where \<^verbatim>\<open>policy_doc\<close> holds the parsed document (after line 12 of
  \<^verbatim>\<open>update-policy.py\<close>, line 49 of the other two) and ends with the document the
  script prints or hands to \<^verbatim>\<open>aws iam put-role-policy\<close>; calling the AWS CLI,
  scraping its output and decoding a URL-encoded document are outside it.
\<close>

subsection \<open>JSON values as Python holds them\<close>

text \<open>
  \<^verbatim>\<open>json.load\<close> builds \<^verbatim>\<open>None\<close>, \<^verbatim>\<open>bool\<close>, \<^verbatim>\<open>int\<close>, \<^verbatim>\<open>float\<close>, \<^verbatim>\<open>str\<close>,
  \<^verbatim>\<open>list\<close> and \<^verbatim>\<open>dict\<close>. A \<^verbatim>\<open>dict\<close> keeps its keys in insertion order and
  \<^verbatim>\<open>json.dumps\<close> writes them in that order, so an object is an association list.
  A \<^verbatim>\<open>float\<close> is carried as its 64 bits; the scripts never look into a number.
  A \<^verbatim>\<open>str\<close> is the list of the bytes of its UTF-8 encoding.
\<close>

datatype json =
    JNull
  | JBool bool
  | JInt int
  | JFloat "64 word"
  | JStr string
  | JArr "json list"
  | JObj "(string \<times> json) list"

text \<open>The ways a script stops without a document: an uncaught exception or \<^verbatim>\<open>sys.exit\<close>.\<close>

datatype error = AttributeError | TypeError | KeyError | SystemExit int

text \<open>
  What a script reports about the statement it looked for: \<^verbatim>\<open>"Added ..."\<close>,
  \<^verbatim>\<open>"... already in IAM policy"\<close> or \<^verbatim>\<open>"Created new DynamoDB statement ..."\<close>.
\<close>

datatype report = Added | AlreadyPresent | Created

subsection \<open>The Python operations the scripts use\<close>

text \<open>\<^verbatim>\<open>x.get(key, default)\<close>: only a \<^verbatim>\<open>dict\<close> has the method.\<close>

fun py_get :: "json \<Rightarrow> string \<Rightarrow> json \<Rightarrow> error + json" where
  "py_get (JObj kvs) key dflt = Inr (case map_of kvs key of None \<Rightarrow> dflt | Some v \<Rightarrow> v)"
| "py_get _ key dflt = Inl AttributeError"

text \<open>\<^verbatim>\<open>x[key]\<close> with a \<^verbatim>\<open>str\<close> key.\<close>

fun py_getitem :: "json \<Rightarrow> string \<Rightarrow> error + json" where
  "py_getitem (JObj kvs) key = (case map_of kvs key of None \<Rightarrow> Inl KeyError | Some v \<Rightarrow> Inr v)"
| "py_getitem _ key = Inl TypeError"

text \<open>
  \<^verbatim>\<open>x[key] = v\<close> with a \<^verbatim>\<open>str\<close> key: a key the \<^verbatim>\<open>dict\<close> has keeps its place,
  a new key goes to the end.
\<close>

fun py_setitem :: "json \<Rightarrow> string \<Rightarrow> json \<Rightarrow> error + json" where
  "py_setitem (JObj kvs) key v = Inr (JObj (AList.update key v kvs))"
| "py_setitem _ key v = Inl TypeError"

text \<open>\<^verbatim>\<open>x.append(v)\<close>: only a \<^verbatim>\<open>list\<close> has the method.\<close>

fun py_append :: "json \<Rightarrow> json \<Rightarrow> error + json" where
  "py_append (JArr xs) v = Inr (JArr (xs @ [v]))"
| "py_append _ v = Inl AttributeError"

text \<open>
  \<^verbatim>\<open>for x in v\<close>: a \<^verbatim>\<open>list\<close> gives its elements, a \<^verbatim>\<open>dict\<close> its keys, a
  \<^verbatim>\<open>str\<close> its characters as one-character strings (here one string for each byte;
  the scripts only ever call \<^verbatim>\<open>.get\<close> on them, which a \<^verbatim>\<open>str\<close> does not have);
  nothing else is iterable.
\<close>

fun py_iter :: "json \<Rightarrow> error + json list" where
  "py_iter (JArr xs) = Inr xs"
| "py_iter (JObj kvs) = Inr (map (\<lambda>kv. JStr (fst kv)) kvs)"
| "py_iter (JStr s) = Inr (map (\<lambda>c. JStr [c]) s)"
| "py_iter _ = Inl TypeError"

text \<open>\<^verbatim>\<open>needle in haystack\<close> on two strings: a contiguous substring.\<close>

fun str_contains :: "string \<Rightarrow> string \<Rightarrow> bool" where
  "str_contains needle [] = (needle = [])"
| "str_contains needle (c # cs) = (prefix needle (c # cs) \<or> str_contains needle cs)"

text \<open>
  \<^verbatim>\<open>s in v\<close> for a \<^verbatim>\<open>str\<close> \<open>s\<close>: an element of a \<^verbatim>\<open>list\<close> equal to it (a value
  that is not a \<^verbatim>\<open>str\<close> is never equal to one), a key of a \<^verbatim>\<open>dict\<close>, a substring of
  a \<^verbatim>\<open>str\<close>; on anything else a \<^verbatim>\<open>TypeError\<close>.
\<close>

fun py_contains :: "json \<Rightarrow> string \<Rightarrow> error + bool" where
  "py_contains (JArr xs) s = Inr (JStr s \<in> set xs)"
| "py_contains (JObj kvs) s = Inr (s \<in> set (map fst kvs))"
| "py_contains (JStr t) s = Inr (str_contains s t)"
| "py_contains _ s = Inl TypeError"

text \<open>\<^verbatim>\<open>if isinstance(x, str): x = [x]\<close>\<close>

fun as_list :: "json \<Rightarrow> json" where
  "as_list (JStr s) = JArr [JStr s]"
| "as_list v = v"

text \<open>
  \<^verbatim>\<open>str.lower\<close>, on the bytes of the encoding: the letters \<open>A\<close> to \<open>Z\<close> become
  \<open>a\<close> to \<open>z\<close>. Python also lowers letters outside ASCII; their lower case is outside
  ASCII again, but for U+212A, which gives \<open>k\<close>, and U+0130, which gives \<open>i\<close> and a
  combining dot. Neither is a letter of \<open>dynamodb\<close>, the only word looked for in a
  lowered string, so the bytes left as they are decide that search as Python does.
\<close>

definition lower_char :: "char \<Rightarrow> char" where
  "lower_char c =
     (if (65::nat) \<le> of_char c \<and> of_char c \<le> (90::nat) then char_of (of_char c + (32::nat)) else c)"

definition lower :: "string \<Rightarrow> string" where
  "lower s = map lower_char s"

text \<open>
  \<^verbatim>\<open>str(v)\<close>: a \<^verbatim>\<open>str\<close> is itself. What Python prints for a value that is not a
  \<^verbatim>\<open>str\<close> (\<^verbatim>\<open>repr\<close> of numbers and of nested lists and dicts) is the parameter
  \<open>repr\<close>.
\<close>

fun py_str :: "(json \<Rightarrow> string) \<Rightarrow> json \<Rightarrow> string" where
  "py_str repr (JStr s) = s"
| "py_str repr v = repr v"

subsection \<open>The statement loop\<close>

text \<open>
  Lines 21 to 32 of \<^verbatim>\<open>update-policy.py\<close> (61 to 72 of the other two): the body of the
  \<^verbatim>\<open>if\<close> that found the statement. The statement is returned as the body leaves it.
\<close>

definition ensure_resource :: "string \<Rightarrow> json \<Rightarrow> error + (report \<times> json)" where
  "ensure_resource arn statement =
     (case py_get statement ''Resource'' (JArr []) of
        Inl e \<Rightarrow> Inl e
      | Inr resources \<Rightarrow>
          (case py_contains (as_list resources) arn of
             Inl e \<Rightarrow> Inl e
           | Inr True \<Rightarrow> Inr (AlreadyPresent, statement)
           | Inr False \<Rightarrow>
               (case py_append (as_list resources) (JStr arn) of
                  Inl e \<Rightarrow> Inl e
                | Inr resources' \<Rightarrow>
                    (case py_setitem statement ''Resource'' resources' of
                       Inl e \<Rightarrow> Inl e
                     | Inr statement' \<Rightarrow> Inr (Added, statement')))))"

text \<open>
  The head of the loop body: read \<^verbatim>\<open>Action\<close>, make a bare string a list, test it with
  the script's condition \<open>is_match\<close>.
\<close>

definition statement_matches :: "(json \<Rightarrow> error + bool) \<Rightarrow> json \<Rightarrow> error + bool" where
  "statement_matches is_match statement =
     (case py_get statement ''Action'' (JArr []) of
        Inl e \<Rightarrow> Inl e
      | Inr actions \<Rightarrow> is_match (as_list actions))"

text \<open>
  The \<^verbatim>\<open>for statement in ...\<close> loop with its \<^verbatim>\<open>break\<close>. It returns what was
  reported (\<open>None\<close> when the loop ran to its end, where \<^verbatim>\<open>found\<close> is still
  \<^verbatim>\<open>False\<close>) and the statements as the loop leaves them.
\<close>

fun patch_loop ::
  "(json \<Rightarrow> error + bool) \<Rightarrow> string \<Rightarrow> json list \<Rightarrow> error + (report option \<times> json list)" where
  "patch_loop is_match arn [] = Inr (None, [])"
| "patch_loop is_match arn (statement # rest) =
     (case statement_matches is_match statement of
        Inl e \<Rightarrow> Inl e
      | Inr True \<Rightarrow>
          (case ensure_resource arn statement of
             Inl e \<Rightarrow> Inl e
           | Inr (r, statement') \<Rightarrow> Inr (Some r, statement' # rest))
      | Inr False \<Rightarrow>
          (case patch_loop is_match arn rest of
             Inl e \<Rightarrow> Inl e
           | Inr (r, rest') \<Rightarrow> Inr (r, statement # rest')))"

text \<open>
  The statements the loop changes are the elements of the list stored under
  \<^verbatim>\<open>Statement\<close>, so the document holds them afterwards. When the key is missing the
  loop ran over the default \<^verbatim>\<open>[]\<close>, and over a \<^verbatim>\<open>dict\<close> or a \<^verbatim>\<open>str\<close> it ran over
  keys or characters: the document keeps what it had.
\<close>

fun write_back :: "json \<Rightarrow> json list \<Rightarrow> json" where
  "write_back (JObj kvs) statements =
     (case map_of kvs ''Statement'' of
        Some (JArr _) \<Rightarrow> JObj (AList.update ''Statement'' (JArr statements) kvs)
      | _ \<Rightarrow> JObj kvs)"
| "write_back v statements = v"

definition run_loop ::
  "(json \<Rightarrow> error + bool) \<Rightarrow> string \<Rightarrow> json \<Rightarrow> error + (report option \<times> json)" where
  "run_loop is_match arn policy_doc =
     (case py_get policy_doc ''Statement'' (JArr []) of
        Inl e \<Rightarrow> Inl e
      | Inr container \<Rightarrow>
          (case py_iter container of
             Inl e \<Rightarrow> Inl e
           | Inr statements \<Rightarrow>
               (case patch_loop is_match arn statements of
                  Inl e \<Rightarrow> Inl e
                | Inr (r, statements') \<Rightarrow> Inr (r, write_back policy_doc statements'))))"

subsection \<open>The three scripts\<close>

definition backdoor_arn :: string where
  "backdoor_arn = ''arn:aws:secretsmanager:*:*:secret:mobile-app/backdoor-secret-*''"

definition telnyx_arn :: string where
  "telnyx_arn = ''arn:aws:secretsmanager:*:*:secret:mobile-app/telnyx-api-key-*''"

definition short_urls_arn :: string where
  "short_urls_arn = ''arn:aws:dynamodb:*:*:table/mobile-short-urls''"

text \<open>\<^verbatim>\<open>'secretsmanager:GetSecretValue' in actions\<close>\<close>

definition has_get_secret :: "json \<Rightarrow> error + bool" where
  "has_get_secret actions = py_contains actions ''secretsmanager:GetSecretValue''"

text \<open>\<^verbatim>\<open>any('dynamodb' in str(action).lower() for action in actions)\<close>\<close>

definition any_dynamodb :: "(json \<Rightarrow> string) \<Rightarrow> json \<Rightarrow> error + bool" where
  "any_dynamodb repr actions =
     (case py_iter actions of
        Inl e \<Rightarrow> Inl e
      | Inr xs \<Rightarrow> Inr (list_ex (\<lambda>action. str_contains ''dynamodb'' (lower (py_str repr action))) xs))"

text \<open>
  \<^verbatim>\<open>update-policy.py\<close>, lines 14 to 36: the loop, then the document is printed
  whether a statement was found or not.
\<close>

definition update_policy :: "json \<Rightarrow> error + (report option \<times> json)" where
  "update_policy policy_doc = run_loop has_get_secret backdoor_arn policy_doc"

text \<open>
  \<^verbatim>\<open>update-telnyx-policy.py\<close>, lines 51 to 81: the loop, \<^verbatim>\<open>sys.exit(1)\<close> when
  nothing was found, else the document goes to \<^verbatim>\<open>put-role-policy\<close>.
\<close>

definition update_telnyx_policy :: "json \<Rightarrow> error + (report option \<times> json)" where
  "update_telnyx_policy policy_doc =
     (case run_loop has_get_secret telnyx_arn policy_doc of
        Inl e \<Rightarrow> Inl e
      | Inr (None, doc) \<Rightarrow> Inl (SystemExit 1)
      | Inr (Some r, doc) \<Rightarrow> Inr (Some r, doc))"

definition new_statement :: json where
  "new_statement =
     JObj [(''Effect'', JStr ''Allow''),
           (''Action'', JArr [JStr ''dynamodb:GetItem'', JStr ''dynamodb:PutItem'',
                              JStr ''dynamodb:UpdateItem'', JStr ''dynamodb:DeleteItem'',
                              JStr ''dynamodb:Query'']),
           (''Resource'', JArr [JStr ''arn:aws:dynamodb:*:*:table/mobile-short-urls''])]"

text \<open>
  \<^verbatim>\<open>update-short-urls-policy.py\<close>, lines 51 to 96: the loop; when nothing was found,
  \<^verbatim>\<open>policy_doc['Statement'].append(new_statement)\<close>; the document goes to
  \<^verbatim>\<open>put-role-policy\<close>.
\<close>

definition update_short_urls_policy ::
  "(json \<Rightarrow> string) \<Rightarrow> json \<Rightarrow> error + (report option \<times> json)" where
  "update_short_urls_policy repr policy_doc =
     (case run_loop (any_dynamodb repr) short_urls_arn policy_doc of
        Inl e \<Rightarrow> Inl e
      | Inr (Some r, doc) \<Rightarrow> Inr (Some r, doc)
      | Inr (None, doc) \<Rightarrow>
          (case py_getitem doc ''Statement'' of
             Inl e \<Rightarrow> Inl e
           | Inr container \<Rightarrow>
               (case py_append container new_statement of
                  Inl e \<Rightarrow> Inl e
                | Inr container' \<Rightarrow>
                    (case py_setitem doc ''Statement'' container' of
                       Inl e \<Rightarrow> Inl e
                     | Inr doc' \<Rightarrow> Inr (Some Created, doc')))))"

text \<open>
  The scripts have no flag for a change; they say it in the message. The document was
  changed when the message is \<^verbatim>\<open>"Added ..."\<close> or \<^verbatim>\<open>"Created ..."\<close>.
\<close>

fun changed :: "report option \<Rightarrow> bool" where
  "changed (Some Added) = True"
| "changed (Some Created) = True"
| "changed _ = False"

subsection \<open>Reading a document\<close>

text \<open>
  The statements of a document whose \<^verbatim>\<open>Statement\<close> is a list; \<open>None\<close> when the
  document is not an object, has no \<^verbatim>\<open>Statement\<close> or has one that is not a list.
\<close>

fun statement_list :: "json \<Rightarrow> json list option" where
  "statement_list (JObj kvs) =
     (case map_of kvs ''Statement'' of Some (JArr xs) \<Rightarrow> Some xs | _ \<Rightarrow> None)"
| "statement_list v = None"

definition statements_of :: "json \<Rightarrow> json list" where
  "statements_of doc = (case statement_list doc of Some xs \<Rightarrow> xs | None \<Rightarrow> [])"

text \<open>A field of a statement, as it is written in the document.\<close>

fun field :: "string \<Rightarrow> json \<Rightarrow> json option" where
  "field key (JObj kvs) = map_of kvs key"
| "field key v = None"

text \<open>
  The sequence an \<^verbatim>\<open>Action\<close> or \<^verbatim>\<open>Resource\<close> field stands for: nothing for a
  missing field, one element for a bare string, the elements of a list. Any other value
  is no sequence.
\<close>

fun sequence_of :: "json option \<Rightarrow> json list option" where
  "sequence_of None = Some []"
| "sequence_of (Some (JStr s)) = Some [JStr s]"
| "sequence_of (Some (JArr xs)) = Some xs"
| "sequence_of (Some v) = None"

definition resource_list :: "json \<Rightarrow> json list" where
  "resource_list statement =
     (case sequence_of (field ''Resource'' statement) of Some rs \<Rightarrow> rs | None \<Rightarrow> [])"

text \<open>
  In the examples every action is a \<^verbatim>\<open>str\<close>, so \<^verbatim>\<open>str\<close> of another value is never
  asked for; \<open>no_repr\<close> stands in for it there.
\<close>

definition no_repr :: "json \<Rightarrow> string" where
  "no_repr v = []"

subsection \<open>Facts about the loop\<close>

lemma map_of_update_other:
  "k' \<noteq> k \<Longrightarrow> map_of (AList.update k v al) k' = map_of al k'"
  by (simp add: update_conv')

lemma statement_matches_update_Resource:
  "statement_matches m (JObj (AList.update ''Resource'' v kvs)) = statement_matches m (JObj kvs)"
  by (simp add: statement_matches_def map_of_update_other)

lemma ensure_resource_list:
  assumes "as_list (case map_of kvs ''Resource'' of None \<Rightarrow> JArr [] | Some v \<Rightarrow> v) = JArr rs"
  shows "ensure_resource arn (JObj kvs) =
    Inr (if JStr arn \<in> set rs then (AlreadyPresent, JObj kvs)
         else (Added, JObj (AList.update ''Resource'' (JArr (rs @ [JStr arn])) kvs)))"
  using assms by (simp add: ensure_resource_def)

lemma ensure_resource_Inr:
  assumes "ensure_resource arn st = Inr (r, st')"
  obtains (present) kvs where "st = JObj kvs" "r = AlreadyPresent" "st' = st"
      "py_contains (as_list (case map_of kvs ''Resource'' of None \<Rightarrow> JArr [] | Some v \<Rightarrow> v)) arn = Inr True"
  | (added) kvs rs where "st = JObj kvs" "r = Added"
      "as_list (case map_of kvs ''Resource'' of None \<Rightarrow> JArr [] | Some v \<Rightarrow> v) = JArr rs"
      "JStr arn \<notin> set rs"
      "st' = JObj (AList.update ''Resource'' (JArr (rs @ [JStr arn])) kvs)"
proof (cases st)
  case (JObj kvs)
  let ?res = "as_list (case map_of kvs ''Resource'' of None \<Rightarrow> JArr [] | Some v \<Rightarrow> v)"
  show thesis
  proof (cases "py_contains ?res arn")
    case (Inl e)
    with assms JObj show thesis by (simp add: ensure_resource_def)
  next
    case (Inr b)
    show thesis
    proof (cases b)
      case True
      with assms JObj Inr show thesis by (intro present[of kvs]) (simp_all add: ensure_resource_def)
    next
      case False
      show thesis
      proof (cases ?res)
        case (JArr rs)
        with assms JObj Inr False show thesis
          by (intro added[of kvs rs]) (simp_all add: ensure_resource_def)
      qed (use assms JObj Inr False in \<open>simp_all add: ensure_resource_def\<close>)
    qed
  qed
qed (use assms in \<open>simp_all add: ensure_resource_def\<close>)

lemma ensure_resource_again:
  assumes "ensure_resource arn st = Inr (r, st')"
  shows "ensure_resource arn st' = Inr (AlreadyPresent, st')"
  using assms
proof (cases rule: ensure_resource_Inr)
  case (present kvs)
  then show ?thesis by (simp add: ensure_resource_def)
next
  case (added kvs rs)
  then show ?thesis by (simp add: ensure_resource_def update_conv')
qed

lemma ensure_resource_matches:
  assumes "ensure_resource arn st = Inr (r, st')"
  shows "statement_matches m st' = statement_matches m st"
  using assms
  by (cases rule: ensure_resource_Inr) (simp_all add: statement_matches_update_Resource)

lemma patch_loop_no_match:
  "(\<forall>s\<in>set xs. statement_matches m s = Inr False) \<Longrightarrow> patch_loop m arn xs = Inr (None, xs)"
  by (induction xs) simp_all

lemma patch_loop_append:
  "(\<forall>s\<in>set pre. statement_matches m s = Inr False) \<Longrightarrow>
   patch_loop m arn (pre @ ys) =
     (case patch_loop m arn ys of Inl e \<Rightarrow> Inl e | Inr (r, ys') \<Rightarrow> Inr (r, pre @ ys'))"
  by (induction pre) (simp_all split: sum.splits prod.splits)

lemma patch_loop_first:
  assumes "\<forall>s\<in>set pre. statement_matches m s = Inr False"
    and "statement_matches m st = Inr True"
    and "ensure_resource arn st = Inr (r, st')"
  shows "patch_loop m arn (pre @ st # post) = Inr (Some r, pre @ st' # post)"
  using assms by (simp add: patch_loop_append)

lemma patch_loop_None_D:
  "patch_loop m arn xs = Inr (None, xs') \<Longrightarrow>
   xs' = xs \<and> (\<forall>s\<in>set xs. statement_matches m s = Inr False)"
  by (induction xs arbitrary: xs') (auto split: sum.splits bool.splits prod.splits)

lemma patch_loop_Some_D:
  "patch_loop m arn xs = Inr (Some r, xs') \<Longrightarrow>
   \<exists>pre st st' post. xs = pre @ st # post \<and> xs' = pre @ st' # post \<and>
     (\<forall>s\<in>set pre. statement_matches m s = Inr False) \<and>
     statement_matches m st = Inr True \<and> ensure_resource arn st = Inr (r, st')"
proof (induction xs arbitrary: xs')
  case Nil
  then show ?case by simp
next
  case (Cons x xs)
  show ?case
  proof (cases "statement_matches m x")
    case (Inl e)
    with Cons.prems show ?thesis by simp
  next
    case (Inr b)
    show ?thesis
    proof (cases b)
      case True
      with Cons.prems Inr have "\<exists>x'. ensure_resource arn x = Inr (r, x') \<and> xs' = x' # xs"
        by (auto split: sum.splits)
      then obtain x' where "ensure_resource arn x = Inr (r, x')" "xs' = x' # xs" by blast
      with Inr True show ?thesis
        by (intro exI[of _ "[]"] exI[of _ x] exI[of _ x'] exI[of _ xs]) simp
    next
      case False
      with Cons.prems Inr obtain ys where ys: "patch_loop m arn xs = Inr (Some r, ys)" "xs' = x # ys"
        by (auto split: sum.splits)
      from Cons.IH[OF ys(1)] obtain pre st st' post where
        "xs = pre @ st # post" "ys = pre @ st' # post"
        "\<forall>s\<in>set pre. statement_matches m s = Inr False"
        "statement_matches m st = Inr True" "ensure_resource arn st = Inr (r, st')"
        by blast
      with Inr False ys(2) show ?thesis
        by (intro exI[of _ "x # pre"] exI[of _ st] exI[of _ st'] exI[of _ post]) simp
    qed
  qed
qed

lemma patch_loop_again:
  assumes "patch_loop m arn xs = Inr (r, xs')"
  shows "patch_loop m arn xs' = Inr (map_option (\<lambda>_. AlreadyPresent) r, xs')"
proof (cases r)
  case None
  with assms show ?thesis using patch_loop_None_D[of m arn xs xs'] by simp
next
  case (Some a)
  with assms obtain pre st st' post where *:
    "xs = pre @ st # post" "xs' = pre @ st' # post"
    "\<forall>s\<in>set pre. statement_matches m s = Inr False"
    "statement_matches m st = Inr True" "ensure_resource arn st = Inr (a, st')"
    using patch_loop_Some_D[of m arn xs a xs'] by blast
  have "statement_matches m st' = Inr True"
    using *(4,5) by (simp add: ensure_resource_matches)
  with * Some show ?thesis
    by (simp add: patch_loop_first ensure_resource_again)
qed

lemma patch_loop_strs:
  assumes "\<forall>x\<in>set xs. \<exists>s. x = JStr s" and "patch_loop m arn xs = Inr p"
  shows "xs = []"
  using assms by (cases xs) (auto simp: statement_matches_def)

lemma sequence_of_as_list:
  "sequence_of (map_of fs key) = Some rs \<Longrightarrow>
   as_list (case map_of fs key of None \<Rightarrow> JArr [] | Some v \<Rightarrow> v) = JArr rs"
  by (cases "map_of fs key" rule: sequence_of.cases) auto

lemma update_missing:
  "map_of fs k = None \<Longrightarrow> AList.update k v fs = fs @ [(k, v)]"
  by (induction fs) (auto split: if_splits)

lemma run_loop_list:
  assumes "map_of kvs ''Statement'' = Some (JArr xs)"
  shows "run_loop m arn (JObj kvs) =
    (case patch_loop m arn xs of
       Inl e \<Rightarrow> Inl e
     | Inr (r, xs') \<Rightarrow> Inr (r, JObj (AList.update ''Statement'' (JArr xs') kvs)))"
  using assms by (simp add: run_loop_def split: sum.splits)


lemma run_loop_not_list:
  assumes "statement_list D = None" and "run_loop m arn D = Inr (r, D')"
  shows "r = None \<and> D' = D \<and>
    (\<exists>kvs. D = JObj kvs \<and> map_of kvs ''Statement'' \<in> {None, Some (JStr []), Some (JObj [])})"
proof (cases D)
  case (JObj kvs)
  show ?thesis
  proof (cases "map_of kvs ''Statement''")
    case None
    with assms JObj show ?thesis by (auto simp: run_loop_def)
  next
    case (Some c)
    show ?thesis
    proof (cases c)
      case (JStr s)
      from assms JObj Some JStr obtain b where
        "patch_loop m arn (map (\<lambda>c. JStr [c]) s) = Inr (r, b)"
        by (auto simp: run_loop_def split: sum.splits)
      then have "map (\<lambda>c. JStr [c]) s = []"
        by (intro patch_loop_strs[of _ m arn "(r, b)"]) auto
      with assms JObj Some JStr show ?thesis by (auto simp: run_loop_def)
    next
      case (JObj d)
      from assms \<open>D = JObj kvs\<close> Some JObj obtain b where
        "patch_loop m arn (map (\<lambda>kv. JStr (fst kv)) d) = Inr (r, b)"
        by (auto simp: run_loop_def split: sum.splits)
      then have "map (\<lambda>kv. JStr (fst kv)) d = []"
        by (intro patch_loop_strs[of _ m arn "(r, b)"]) auto
      with assms \<open>D = JObj kvs\<close> Some JObj show ?thesis by (auto simp: run_loop_def)
    qed (use assms JObj Some in \<open>simp_all add: run_loop_def\<close>)
  qed
qed (use assms in \<open>simp_all add: run_loop_def\<close>)

lemma run_loop_Inr:
  assumes "run_loop m arn D = Inr (r, D')"
  obtains (no_list) kvs where "D = JObj kvs" "statement_list D = None" "r = None" "D' = D"
      "map_of kvs ''Statement'' \<in> {None, Some (JStr []), Some (JObj [])}"
  | (list) kvs xs xs' where "D = JObj kvs" "map_of kvs ''Statement'' = Some (JArr xs)"
      "patch_loop m arn xs = Inr (r, xs')"
      "D' = JObj (AList.update ''Statement'' (JArr xs') kvs)"
proof (cases "statement_list D")
  case None
  with assms run_loop_not_list[of D m arn r D'] no_list show thesis by blast
next
  case (Some xs)
  then obtain kvs where kvs: "D = JObj kvs" "map_of kvs ''Statement'' = Some (JArr xs)"
    by (cases D) (auto split: option.splits json.splits)
  with assms obtain xs' where "patch_loop m arn xs = Inr (r, xs')"
    "D' = JObj (AList.update ''Statement'' (JArr xs') kvs)"
    by (auto simp: run_loop_list split: sum.splits)
  with kvs list show thesis by blast
qed

lemma run_loop_again:
  assumes "run_loop m arn D = Inr (r, D')"
  shows "run_loop m arn D' = Inr (map_option (\<lambda>_. AlreadyPresent) r, D')"
  using assms
proof (cases rule: run_loop_Inr)
  case (no_list kvs)
  with assms show ?thesis by simp
next
  case (list kvs xs xs')
  have "map_of (AList.update ''Statement'' (JArr xs') kvs) ''Statement'' = Some (JArr xs')"
    by (simp add: update_conv')
  with list patch_loop_again[OF list(3)] show ?thesis
    by (simp add: run_loop_list)
qed

text \<open>What a successful run of the loop did to the document.\<close>

lemma run_loop_effect:
  assumes "run_loop m arn D = Inr (r, D')"
  obtains (same) "r \<noteq> Some Added" "D' = D"
  | (added) kvs pre fs post rs where "r = Some Added" "D = JObj kvs"
      "map_of kvs ''Statement'' = Some (JArr (pre @ JObj fs # post))"
      "\<forall>s\<in>set pre. statement_matches m s = Inr False"
      "statement_matches m (JObj fs) = Inr True"
      "as_list (case map_of fs ''Resource'' of None \<Rightarrow> JArr [] | Some v \<Rightarrow> v) = JArr rs"
      "JStr arn \<notin> set rs"
      "D' = JObj (AList.update ''Statement''
          (JArr (pre @ JObj (AList.update ''Resource'' (JArr (rs @ [JStr arn])) fs) # post)) kvs)"
  using assms
proof (cases rule: run_loop_Inr)
  case (no_list kvs)
  with same show thesis by simp
next
  case (list kvs xs xs')
  show thesis
  proof (cases r)
    case None
    with list patch_loop_None_D[of m arn xs xs'] have "xs' = xs" by simp
    with list None same show thesis by (simp add: update_triv)
  next
    case (Some a)
    with list obtain pre st st' post where *:
      "xs = pre @ st # post" "xs' = pre @ st' # post"
      "\<forall>s\<in>set pre. statement_matches m s = Inr False"
      "statement_matches m st = Inr True" "ensure_resource arn st = Inr (a, st')"
      using patch_loop_Some_D[of m arn xs a xs'] by blast
    from *(5) show thesis
    proof (cases rule: ensure_resource_Inr)
      case (present fs)
      with * list Some same show thesis by (simp add: update_triv)
    next
      case (added fs rs)
      with * list Some show thesis by (intro that(2)[of kvs pre fs post rs]) simp_all
    qed
  qed
qed

subsection \<open>Facts about the scripts\<close>

lemma run_loop_not_Created:
  assumes "run_loop m arn D = Inr (Some a, D')"
  shows "a \<noteq> Created"
  using assms
proof (cases rule: run_loop_Inr)
  case (list kvs xs xs')
  from patch_loop_Some_D[OF list(3)] obtain st st' where "ensure_resource arn st = Inr (a, st')"
    by blast
  then show ?thesis by (cases rule: ensure_resource_Inr) simp_all
qed simp

lemma update_telnyx_policy_Inr:
  assumes "update_telnyx_policy D = Inr (r, D')"
  obtains a where "r = Some a" "run_loop has_get_secret telnyx_arn D = Inr (Some a, D')"
  using assms
  by (auto simp: update_telnyx_policy_def split: sum.splits option.splits)

lemma update_telnyx_policy_found:
  "run_loop has_get_secret telnyx_arn D = Inr (Some a, D') \<Longrightarrow>
   update_telnyx_policy D = Inr (Some a, D')"
  by (simp add: update_telnyx_policy_def)

lemma update_short_urls_policy_found:
  "run_loop (any_dynamodb repr) short_urls_arn D = Inr (Some a, D') \<Longrightarrow>
   update_short_urls_policy repr D = Inr (Some a, D')"
  by (simp add: update_short_urls_policy_def)

lemma update_short_urls_policy_create:
  assumes "map_of kvs ''Statement'' = Some (JArr xs)"
    and "\<forall>s\<in>set xs. statement_matches (any_dynamodb repr) s = Inr False"
  shows "update_short_urls_policy repr (JObj kvs) =
    Inr (Some Created, JObj (AList.update ''Statement'' (JArr (xs @ [new_statement])) kvs))"
  using assms
  by (simp add: update_short_urls_policy_def run_loop_list patch_loop_no_match update_triv)

lemma update_short_urls_policy_Inr:
  assumes "update_short_urls_policy repr D = Inr (r, D')"
  obtains (found) a where "r = Some a" "a \<noteq> Created"
      "run_loop (any_dynamodb repr) short_urls_arn D = Inr (Some a, D')"
  | (created) kvs xs where "r = Some Created" "D = JObj kvs"
      "map_of kvs ''Statement'' = Some (JArr xs)"
      "\<forall>s\<in>set xs. statement_matches (any_dynamodb repr) s = Inr False"
      "D' = JObj (AList.update ''Statement'' (JArr (xs @ [new_statement])) kvs)"
proof (cases "run_loop (any_dynamodb repr) short_urls_arn D")
  case (Inl e)
  with assms show thesis by (simp add: update_short_urls_policy_def)
next
  case (Inr p)
  obtain r0 D0 where p: "p = (r0, D0)" by (cases p)
  show thesis
  proof (cases r0)
    case (Some a)
    from Inr p Some have "a \<noteq> Created"
      by (auto dest: run_loop_not_Created)
    moreover from assms Inr p Some have "r = Some a" "D' = D0"
      by (simp_all add: update_short_urls_policy_def)
    ultimately show thesis using Inr p Some by (intro found[of a]) simp_all
  next
    case None
    from Inr[unfolded p None] show thesis
    proof (cases rule: run_loop_Inr)
      case (no_list kvs)
      with assms Inr p None show thesis
        by (auto simp: update_short_urls_policy_def)
    next
      case (list kvs xs xs')
      with patch_loop_None_D[of "any_dynamodb repr" short_urls_arn xs xs']
      have "xs' = xs" "\<forall>s\<in>set xs. statement_matches (any_dynamodb repr) s = Inr False"
        by simp_all
      with assms list update_short_urls_policy_create[of kvs xs repr] created[of kvs xs]
      show thesis by simp
    qed
  qed
qed

lemma lower_GetItem: "lower ''dynamodb:GetItem'' = ''dynamodb:getitem''"
  by code_simp

lemma new_statement_matches:
  "statement_matches (any_dynamodb repr) new_statement = Inr True"
  by (simp add: statement_matches_def new_statement_def any_dynamodb_def lower_GetItem)

lemma new_statement_present:
  "ensure_resource short_urls_arn new_statement = Inr (AlreadyPresent, new_statement)"
  by (simp add: ensure_resource_def new_statement_def short_urls_arn_def)

lemma update_short_urls_policy_again:
  assumes "update_short_urls_policy repr D = Inr (r, D')"
  shows "update_short_urls_policy repr D' = Inr (Some AlreadyPresent, D')"
  using assms
proof (cases rule: update_short_urls_policy_Inr)
  case (found a)
  from run_loop_again[OF found(3)] show ?thesis
    by (simp add: update_short_urls_policy_found)
next
  case (created kvs xs)
  have "patch_loop (any_dynamodb repr) short_urls_arn (xs @ new_statement # []) =
      Inr (Some AlreadyPresent, xs @ new_statement # [])"
    using created(4) new_statement_matches new_statement_present by (rule patch_loop_first)
  moreover have "map_of (AList.update ''Statement'' (JArr (xs @ [new_statement])) kvs) ''Statement''
      = Some (JArr (xs @ [new_statement]))"
    by (simp add: update_conv')
  ultimately have "run_loop (any_dynamodb repr) short_urls_arn D' = Inr (Some AlreadyPresent, D')"
    using created(5) by (simp add: run_loop_list)
  then show ?thesis by (rule update_short_urls_policy_found)
qed

lemma update_telnyx_policy_again:
  assumes "update_telnyx_policy D = Inr (r, D')"
  shows "update_telnyx_policy D' = Inr (Some AlreadyPresent, D')"
  using assms
proof (cases rule: update_telnyx_policy_Inr)
  case (1 a)
  from run_loop_again[OF 1(2)] show ?thesis
    by (simp add: update_telnyx_policy_found)
qed

lemma run_loop_first_match:
  assumes "map_of kvs ''Statement'' = Some (JArr (pre @ JObj fs # post))"
    and "sequence_of (map_of fs ''Resource'') = Some rs"
    and "\<forall>s\<in>set pre. statement_matches m s = Inr False"
    and "statement_matches m (JObj fs) = Inr True"
  shows "run_loop m arn (JObj kvs) =
    (if JStr arn \<in> set rs then Inr (Some AlreadyPresent, JObj kvs)
     else Inr (Some Added, JObj (AList.update ''Statement''
       (JArr (pre @ JObj (AList.update ''Resource'' (JArr (rs @ [JStr arn])) fs) # post)) kvs)))"
proof -
  have "ensure_resource arn (JObj fs) =
      Inr (if JStr arn \<in> set rs then (AlreadyPresent, JObj fs)
           else (Added, JObj (AList.update ''Resource'' (JArr (rs @ [JStr arn])) fs)))"
    using assms(2) by (intro ensure_resource_list sequence_of_as_list)
  with assms(3,4) have "patch_loop m arn (pre @ JObj fs # post) =
      (if JStr arn \<in> set rs then Inr (Some AlreadyPresent, pre @ JObj fs # post)
       else Inr (Some Added,
         pre @ JObj (AList.update ''Resource'' (JArr (rs @ [JStr arn])) fs) # post))"
    by (simp add: patch_loop_first)
  with assms(1) show ?thesis
    by (simp add: run_loop_list update_triv)
qed

lemma as_list_sequence_of:
  "as_list (case map_of fs key of None \<Rightarrow> JArr [] | Some v \<Rightarrow> v) = JArr rs \<Longrightarrow>
   sequence_of (map_of fs key) = Some rs"
  by (cases "map_of fs key" rule: sequence_of.cases) auto

lemma resource_list_update:
  "resource_list (JObj (AList.update ''Resource'' (JArr ys) fs)) = ys"
  by (simp add: resource_list_def update_conv')

lemma resource_list_sequence_of:
  "sequence_of (map_of fs ''Resource'') = Some rs \<Longrightarrow> resource_list (JObj fs) = rs"
  by (simp add: resource_list_def)

lemma field_update_other:
  "k \<noteq> k' \<Longrightarrow> field k (JObj (AList.update k' v fs)) = field k (JObj fs)"
  by (simp add: update_conv')

text \<open>The statements before and after a successful run of the loop.\<close>

lemma run_loop_statements:
  assumes "run_loop m arn D = Inr (r, D')"
  obtains (same) "D' = D"
  | (added) pre fs post rs where
      "statements_of D = pre @ JObj fs # post"
      "statements_of D' =
         pre @ JObj (AList.update ''Resource'' (JArr (rs @ [JStr arn])) fs) # post"
      "\<forall>s\<in>set pre. statement_matches m s = Inr False"
      "statement_matches m (JObj fs) = Inr True"
      "sequence_of (map_of fs ''Resource'') = Some rs"
      "\<forall>k. k \<noteq> ''Statement'' \<longrightarrow> field k D' = field k D"
  using assms
proof (cases rule: run_loop_effect)
  case same
  then show thesis using that(1) by simp
next
  case (added kvs pre fs post rs)
  show thesis
  proof (rule that(2)[of pre fs post rs])
    show "statements_of D = pre @ JObj fs # post"
      using added(2,3) by (simp add: statements_of_def)
    show "statements_of D' =
        pre @ JObj (AList.update ''Resource'' (JArr (rs @ [JStr arn])) fs) # post"
      using added(8) by (simp add: statements_of_def update_conv')
    show "\<forall>s\<in>set pre. statement_matches m s = Inr False" by (rule added(4))
    show "statement_matches m (JObj fs) = Inr True" by (rule added(5))
    show "sequence_of (map_of fs ''Resource'') = Some rs"
      using added(6) by (rule as_list_sequence_of)
    show "\<forall>k. k \<noteq> ''Statement'' \<longrightarrow> field k D' = field k D"
      using added(2,8) by (simp add: update_conv')
  qed
qed

text \<open>
  What the statements of \<open>D'\<close> are to those of \<open>D\<close> after the loop: the same number,
  each one the statement that stood there, but that the first statement on which the
  condition is true may have the ARN appended to its \<^verbatim>\<open>Resource\<close>.
\<close>

lemma run_loop_frame:
  assumes "run_loop m arn D = Inr (r, D')" and "i < length (statements_of D)"
  shows "length (statements_of D') = length (statements_of D)"
    and "statements_of D' ! i = statements_of D ! i \<or>
      (statement_matches m (statements_of D ! i) = Inr True \<and>
       (\<forall>j<i. statement_matches m (statements_of D ! j) = Inr False) \<and>
       (\<exists>fs. statements_of D ! i = JObj fs \<and>
          statements_of D' ! i = JObj (AList.update ''Resource''
            (JArr (resource_list (statements_of D ! i) @ [JStr arn])) fs)))"
proof -
  from assms(1) have "length (statements_of D') = length (statements_of D) \<and>
    (statements_of D' ! i = statements_of D ! i \<or>
      (statement_matches m (statements_of D ! i) = Inr True \<and>
       (\<forall>j<i. statement_matches m (statements_of D ! j) = Inr False) \<and>
       (\<exists>fs. statements_of D ! i = JObj fs \<and>
          statements_of D' ! i = JObj (AList.update ''Resource''
            (JArr (resource_list (statements_of D ! i) @ [JStr arn])) fs))))"
  proof (cases rule: run_loop_statements)
    case same
    then show ?thesis by simp
  next
    case (added pre fs post rs)
    have rl: "resource_list (JObj fs) = rs"
      using added(5) by (rule resource_list_sequence_of)
    consider "i < length pre" | "i = length pre" | "i > length pre" by linarith
    then show ?thesis
    proof cases
      case 1
      with added(1,2) show ?thesis by (simp add: nth_append)
    next
      case 2
      have "\<forall>j<i. statement_matches m (statements_of D ! j) = Inr False"
        using added(1,3) 2 by (simp add: nth_append)
      with added(1,2,4) 2 rl show ?thesis by simp
    next
      case 3
      with added(1,2) show ?thesis by (simp add: nth_append nth_Cons')
    qed
  qed
  then show "length (statements_of D') = length (statements_of D)"
    and "statements_of D' ! i = statements_of D ! i \<or>
      (statement_matches m (statements_of D ! i) = Inr True \<and>
       (\<forall>j<i. statement_matches m (statements_of D ! j) = Inr False) \<and>
       (\<exists>fs. statements_of D ! i = JObj fs \<and>
          statements_of D' ! i = JObj (AList.update ''Resource''
            (JArr (resource_list (statements_of D ! i) @ [JStr arn])) fs)))"
    by blast+
qed

lemma run_loop_length:
  assumes "run_loop m arn D = Inr (r, D')"
  shows "length (statements_of D') = length (statements_of D)"
  using assms by (cases rule: run_loop_statements) simp_all

lemma run_loop_other_keys:
  assumes "run_loop m arn D = Inr (r, D')" and "k \<noteq> ''Statement''"
  shows "field k D' = field k D"
  using assms by (cases rule: run_loop_statements) simp_all

lemma update_short_urls_policy_statements:
  assumes "update_short_urls_policy repr D = Inr (r, D')"
  obtains (found) a where "r = Some a" "a \<noteq> Created"
      "run_loop (any_dynamodb repr) short_urls_arn D = Inr (Some a, D')"
  | (created) "r = Some Created" "statements_of D' = statements_of D @ [new_statement]"
      "\<forall>k. k \<noteq> ''Statement'' \<longrightarrow> field k D' = field k D"
  using assms
proof (cases rule: update_short_urls_policy_Inr)
  case (found a)
  then show thesis using that(1) by simp
next
  case (created kvs xs)
  then show thesis
    by (intro that(2)) (simp_all add: statements_of_def update_conv')
qed

lemma changed_statement:
  assumes "st = JObj fs" and "st' = JObj (AList.update ''Resource'' (JArr (resource_list st @ ys)) fs)"
  shows "field ''Action'' st' = field ''Action'' st"
    and "prefix (resource_list st) (resource_list st')"
    and "k \<noteq> ''Resource'' \<Longrightarrow> field k st' = field k st"
  using assms by (simp_all add: update_conv' resource_list_update)

lemma run_loop_only_resource:
  assumes "run_loop m arn D = Inr (r, D')"
  shows "(\<forall>k. k \<noteq> ''Statement'' \<longrightarrow> field k D' = field k D) \<and>
    (\<forall>i<length (statements_of D). statements_of D' ! i \<noteq> statements_of D ! i \<longrightarrow>
       statement_matches m (statements_of D ! i) = Inr True \<and>
       (\<forall>j<i. statement_matches m (statements_of D ! j) = Inr False) \<and>
       (\<forall>k. k \<noteq> ''Resource'' \<longrightarrow>
          field k (statements_of D' ! i) = field k (statements_of D ! i)))"
proof (intro conjI allI impI)
  fix k :: string assume "k \<noteq> ''Statement''"
  with assms show "field k D' = field k D" by (rule run_loop_other_keys)
next
  fix i assume i: "i < length (statements_of D)"
    and ne: "statements_of D' ! i \<noteq> statements_of D ! i"
  from run_loop_frame(2)[OF assms i] ne obtain fs where *:
    "statement_matches m (statements_of D ! i) = Inr True"
    "\<forall>j<i. statement_matches m (statements_of D ! j) = Inr False"
    "statements_of D ! i = JObj fs"
    "statements_of D' ! i = JObj (AList.update ''Resource''
        (JArr (resource_list (statements_of D ! i) @ [JStr arn])) fs)"
    by blast
  show "statement_matches m (statements_of D ! i) = Inr True" by (rule *(1))
  show "\<And>j. j < i \<Longrightarrow> statement_matches m (statements_of D ! j) = Inr False"
    using *(2) by blast
  show "\<And>k. k \<noteq> ''Resource'' \<Longrightarrow>
      field k (statements_of D' ! i) = field k (statements_of D ! i)"
    using changed_statement(3)[OF *(3,4)] by blast
qed

lemma patch_loop_same_report:
  assumes "statement_matches m a = statement_matches m b"
    and "map_sum id fst (ensure_resource arn a) = map_sum id fst (ensure_resource arn b)"
  shows "map_sum id fst (patch_loop m arn (pre @ a # post)) =
    map_sum id fst (patch_loop m arn (pre @ b # post))"
proof (induction pre)
  case Nil
  show ?case
  proof (cases "statement_matches m b")
    case (Inl e)
    with assms(1) show ?thesis by simp
  next
    case (Inr hit)
    show ?thesis
    proof (cases hit)
      case True
      with Inr assms show ?thesis
        by (cases "ensure_resource arn a"; cases "ensure_resource arn b") auto
    next
      case False
      with Inr assms(1) show ?thesis
        by (cases "patch_loop m arn post") auto
    qed
  qed
next
  case (Cons x pre)
  then show ?case
    by (cases "patch_loop m arn (pre @ a # post)"; cases "patch_loop m arn (pre @ b # post)")
      (auto split: sum.splits bool.splits)
qed

lemma run_loop_same_report:
  assumes "statement_matches m a = statement_matches m b"
    and "map_sum id fst (ensure_resource arn a) = map_sum id fst (ensure_resource arn b)"
  shows "map_sum id fst (run_loop m arn (JObj (AList.update ''Statement'' (JArr (pre @ a # post)) kvs))) =
    map_sum id fst (run_loop m arn (JObj (AList.update ''Statement'' (JArr (pre @ b # post)) kvs)))"
proof -
  have "map_of (AList.update ''Statement'' (JArr xs) kvs) ''Statement'' = Some (JArr xs)" for xs
    by (simp add: update_conv')
  then have "map_sum id fst (run_loop m arn (JObj (AList.update ''Statement'' (JArr xs) kvs))) =
      map_sum id fst (patch_loop m arn xs)" for xs
    by (cases "patch_loop m arn xs") (auto simp: run_loop_list)
  with patch_loop_same_report[OF assms] show ?thesis by simp
qed

lemma ensure_resource_report:
  "map_sum id fst (ensure_resource arn (JObj fs)) =
    (case py_contains (as_list (case map_of fs ''Resource'' of None \<Rightarrow> JArr [] | Some v \<Rightarrow> v)) arn of
       Inl e \<Rightarrow> Inl e
     | Inr True \<Rightarrow> Inr AlreadyPresent
     | Inr False \<Rightarrow>
         (case py_append (as_list (case map_of fs ''Resource'' of None \<Rightarrow> JArr [] | Some v \<Rightarrow> v))
                 (JStr arn) of
            Inl e \<Rightarrow> Inl e
          | Inr v \<Rightarrow> Inr Added))"
  by (simp add: ensure_resource_def split: sum.splits bool.splits)

lemma ensure_resource_report_cong:
  assumes "as_list (case map_of fs ''Resource'' of None \<Rightarrow> JArr [] | Some v \<Rightarrow> v) =
    as_list (case map_of gs ''Resource'' of None \<Rightarrow> JArr [] | Some v \<Rightarrow> v)"
  shows "map_sum id fst (ensure_resource arn (JObj fs)) = map_sum id fst (ensure_resource arn (JObj gs))"
  unfolding ensure_resource_report assms ..

lemma bare_string_statement:
  assumes "key = ''Action'' \<or> key = ''Resource''"
  shows "statement_matches m (JObj (AList.update key (JStr x) fs)) =
      statement_matches m (JObj (AList.update key (JArr [JStr x]) fs))"
    and "map_sum id fst (ensure_resource arn (JObj (AList.update key (JStr x) fs))) =
      map_sum id fst (ensure_resource arn (JObj (AList.update key (JArr [JStr x]) fs)))"
proof -
  show "statement_matches m (JObj (AList.update key (JStr x) fs)) =
      statement_matches m (JObj (AList.update key (JArr [JStr x]) fs))"
    using assms by (auto simp: statement_matches_def update_conv')
  show "map_sum id fst (ensure_resource arn (JObj (AList.update key (JStr x) fs))) =
      map_sum id fst (ensure_resource arn (JObj (AList.update key (JArr [JStr x]) fs)))"
    using assms by (intro ensure_resource_report_cong) (auto simp: update_conv')
qed

lemma update_telnyx_policy_report:
  "map_sum id fst (update_telnyx_policy D) =
    (case map_sum id fst (run_loop has_get_secret telnyx_arn D) of
       Inl e \<Rightarrow> Inl e
     | Inr None \<Rightarrow> Inl (SystemExit 1)
     | Inr (Some r) \<Rightarrow> Inr (Some r))"
  by (simp add: update_telnyx_policy_def split: sum.splits option.splits)

lemma update_short_urls_policy_report:
  "map_sum id fst (update_short_urls_policy repr (JObj (AList.update ''Statement'' (JArr xs) kvs))) =
    (case map_sum id fst
        (run_loop (any_dynamodb repr) short_urls_arn (JObj (AList.update ''Statement'' (JArr xs) kvs))) of
       Inl e \<Rightarrow> Inl e
     | Inr None \<Rightarrow> Inr (Some Created)
     | Inr (Some r) \<Rightarrow> Inr (Some r))"
proof -
  let ?D = "JObj (AList.update ''Statement'' (JArr xs) kvs)"
  have st: "map_of (AList.update ''Statement'' (JArr xs) kvs) ''Statement'' = Some (JArr xs)"
    by (simp add: update_conv')
  show ?thesis
  proof (cases "run_loop (any_dynamodb repr) short_urls_arn ?D")
    case (Inl e)
    then show ?thesis by (simp add: update_short_urls_policy_def)
  next
    case (Inr p)
    obtain r D' where p: "p = (r, D')" by (cases p)
    show ?thesis
    proof (cases r)
      case (Some a)
      with Inr p show ?thesis by (simp add: update_short_urls_policy_def)
    next
      case None
      from Inr[unfolded p None] have "D' = ?D"
        by (cases rule: run_loop_effect) simp_all
      with Inr p None st show ?thesis
        by (simp add: update_short_urls_policy_def)
    qed
  qed
qed

section \<open>The claims\<close>

subsection \<open>C1\<close>

text \<open>
  C1 (idempotence). When a script has produced a document, running the same script on
  that document produces the same document again and reports no change: the message is
  not \<^verbatim>\<open>"Added ..."\<close> and not \<^verbatim>\<open>"Created ..."\<close>.
\<close>

theorem patch_twice_is_patch_once:
  "(update_policy D1 = Inr (r1, D1') \<longrightarrow>
      (\<exists>r'. update_policy D1' = Inr (r', D1') \<and> \<not> changed r')) \<and>
   (update_telnyx_policy D2 = Inr (r2, D2') \<longrightarrow>
      (\<exists>r'. update_telnyx_policy D2' = Inr (r', D2') \<and> \<not> changed r')) \<and>
   (update_short_urls_policy repr D3 = Inr (r3, D3') \<longrightarrow>
      (\<exists>r'. update_short_urls_policy repr D3' = Inr (r', D3') \<and> \<not> changed r'))"
proof (intro conjI impI)
  assume "update_policy D1 = Inr (r1, D1')"
  then have "update_policy D1' = Inr (map_option (\<lambda>_. AlreadyPresent) r1, D1')"
    unfolding update_policy_def by (rule run_loop_again)
  moreover have "\<not> changed (map_option (\<lambda>_. AlreadyPresent) r1)"
    by (cases r1) simp_all
  ultimately show "\<exists>r'. update_policy D1' = Inr (r', D1') \<and> \<not> changed r'"
    by blast
next
  assume "update_telnyx_policy D2 = Inr (r2, D2')"
  then have "update_telnyx_policy D2' = Inr (Some AlreadyPresent, D2')"
    by (rule update_telnyx_policy_again)
  then show "\<exists>r'. update_telnyx_policy D2' = Inr (r', D2') \<and> \<not> changed r'"
    by simp
next
  assume "update_short_urls_policy repr D3 = Inr (r3, D3')"
  then have "update_short_urls_policy repr D3' = Inr (Some AlreadyPresent, D3')"
    by (rule update_short_urls_policy_again)
  then show "\<exists>r'. update_short_urls_policy repr D3' = Inr (r', D3') \<and> \<not> changed r'"
    by simp
qed

theorem patch_twice_is_patch_once_witness:
  "update_policy
     (JObj [(''Version'', JStr ''2012-10-17''),
            (''Statement'', JArr [JObj [(''Effect'', JStr ''Allow''),
                                       (''Action'', JStr ''secretsmanager:GetSecretValue''),
                                       (''Resource'', JStr ''arn:foo'')]])])
   = Inr (Some Added,
      JObj [(''Version'', JStr ''2012-10-17''),
            (''Statement'', JArr [JObj [(''Effect'', JStr ''Allow''),
                                       (''Action'', JStr ''secretsmanager:GetSecretValue''),
                                       (''Resource'', JArr [JStr ''arn:foo'', JStr backdoor_arn])]])]) \<and>
   (\<exists>r'. update_policy
      (JObj [(''Version'', JStr ''2012-10-17''),
            (''Statement'', JArr [JObj [(''Effect'', JStr ''Allow''),
                                       (''Action'', JStr ''secretsmanager:GetSecretValue''),
                                       (''Resource'', JArr [JStr ''arn:foo'', JStr backdoor_arn])]])])
      = Inr (r',
      JObj [(''Version'', JStr ''2012-10-17''),
            (''Statement'', JArr [JObj [(''Effect'', JStr ''Allow''),
                                       (''Action'', JStr ''secretsmanager:GetSecretValue''),
                                       (''Resource'', JArr [JStr ''arn:foo'', JStr backdoor_arn])]])]) \<and> \<not> changed r') \<and>
   update_telnyx_policy
     (JObj [(''Statement'', JArr [JObj [(''Action'', JArr [JStr ''secretsmanager:GetSecretValue''])]])])
   = Inr (Some Added,
      JObj [(''Statement'', JArr [JObj [(''Action'', JArr [JStr ''secretsmanager:GetSecretValue'']),
                                       (''Resource'', JArr [JStr telnyx_arn])]])]) \<and>
   (\<exists>r'. update_telnyx_policy
      (JObj [(''Statement'', JArr [JObj [(''Action'', JArr [JStr ''secretsmanager:GetSecretValue'']),
                                       (''Resource'', JArr [JStr telnyx_arn])]])])
      = Inr (r',
      JObj [(''Statement'', JArr [JObj [(''Action'', JArr [JStr ''secretsmanager:GetSecretValue'']),
                                       (''Resource'', JArr [JStr telnyx_arn])]])]) \<and> \<not> changed r') \<and>
   update_short_urls_policy no_repr (JObj [(''Statement'', JArr [])])
   = Inr (Some Created, JObj [(''Statement'', JArr [new_statement])]) \<and>
   (\<exists>r'. update_short_urls_policy no_repr (JObj [(''Statement'', JArr [new_statement])])
      = Inr (r', JObj [(''Statement'', JArr [new_statement])]) \<and> \<not> changed r')"
proof -
  have h1: "update_policy
     (JObj [(''Version'', JStr ''2012-10-17''),
            (''Statement'', JArr [JObj [(''Effect'', JStr ''Allow''),
                                       (''Action'', JStr ''secretsmanager:GetSecretValue''),
                                       (''Resource'', JStr ''arn:foo'')]])])
   = Inr (Some Added,
      JObj [(''Version'', JStr ''2012-10-17''),
            (''Statement'', JArr [JObj [(''Effect'', JStr ''Allow''),
                                       (''Action'', JStr ''secretsmanager:GetSecretValue''),
                                       (''Resource'', JArr [JStr ''arn:foo'', JStr backdoor_arn])]])])"
    by (simp add: update_policy_def run_loop_def statement_matches_def has_get_secret_def
        ensure_resource_def backdoor_arn_def)
  have h2: "update_telnyx_policy
     (JObj [(''Statement'', JArr [JObj [(''Action'', JArr [JStr ''secretsmanager:GetSecretValue''])]])])
   = Inr (Some Added,
      JObj [(''Statement'', JArr [JObj [(''Action'', JArr [JStr ''secretsmanager:GetSecretValue'']),
                                       (''Resource'', JArr [JStr telnyx_arn])]])])"
    by (simp add: update_telnyx_policy_def run_loop_def statement_matches_def has_get_secret_def
        ensure_resource_def telnyx_arn_def)
  have h3: "update_short_urls_policy no_repr (JObj [(''Statement'', JArr [])])
   = Inr (Some Created, JObj [(''Statement'', JArr [new_statement])])"
    by (simp add: update_short_urls_policy_def run_loop_def)
  from h1 h2 h3 patch_twice_is_patch_once[THEN conjunct1, THEN mp, OF h1]
    patch_twice_is_patch_once[THEN conjunct2, THEN conjunct1, THEN mp, OF h2]
    patch_twice_is_patch_once[THEN conjunct2, THEN conjunct2, THEN mp, OF h3]
  show ?thesis by blast
qed

subsection \<open>C2\<close>

text \<open>
  C2 (no statement found, nothing to fall back on). \<^verbatim>\<open>update-policy.py\<close> has no
  \<^verbatim>\<open>found\<close> flag: on a document whose only statement grants \<^verbatim>\<open>s3:GetObject\<close> it
  prints the document as it was and reports nothing, where
  \<^verbatim>\<open>update-telnyx-policy.py\<close> stops with exit status 1.
\<close>

theorem update_policy_silent_without_match:
  "update_policy
     (JObj [(''Version'', JStr ''2012-10-17''),
            (''Statement'', JArr [JObj [(''Effect'', JStr ''Allow''),
                                       (''Action'', JStr ''s3:GetObject''),
                                       (''Resource'', JStr ''*'')]])])
   = Inr (None,
      JObj [(''Version'', JStr ''2012-10-17''),
            (''Statement'', JArr [JObj [(''Effect'', JStr ''Allow''),
                                       (''Action'', JStr ''s3:GetObject''),
                                       (''Resource'', JStr ''*'')]])]) \<and>
   update_telnyx_policy
     (JObj [(''Version'', JStr ''2012-10-17''),
            (''Statement'', JArr [JObj [(''Effect'', JStr ''Allow''),
                                       (''Action'', JStr ''s3:GetObject''),
                                       (''Resource'', JStr ''*'')]])])
   = Inl (SystemExit 1)"
  by (simp add: update_policy_def update_telnyx_policy_def run_loop_def statement_matches_def
      has_get_secret_def)

subsection \<open>C3\<close>

text \<open>
  C3 (how names are compared), as the claim states it, fails:
  \<^verbatim>\<open>update-short-urls-policy.py\<close> takes a statement for a DynamoDB statement when the
  action \<^verbatim>\<open>DynamoDB:Query\<close> is in it, though the word it looks for, \<^verbatim>\<open>dynamodb\<close>, is
  neither equal to that action nor, case kept, a part of it; and it takes
  \<^verbatim>\<open>logs:xdynamodbx\<close> as well.
\<close>

theorem dynamodb_match_is_not_exact:
  "statement_matches (any_dynamodb no_repr)
      (JObj [(''Effect'', JStr ''Allow''), (''Action'', JArr [JStr ''DynamoDB:Query''])])
    = Inr True \<and>
   ''DynamoDB:Query'' \<noteq> ''dynamodb'' \<and>
   \<not> str_contains ''dynamodb'' ''DynamoDB:Query'' \<and>
   statement_matches (any_dynamodb no_repr)
      (JObj [(''Effect'', JStr ''Allow''), (''Action'', JStr ''logs:xdynamodbx'')])
    = Inr True \<and>
   update_short_urls_policy no_repr
      (JObj [(''Statement'', JArr [JObj [(''Action'', JArr [JStr ''DynamoDB:Query'']),
                                        (''Resource'', JArr [JStr ''*''])]])])
    = Inr (Some Added,
       JObj [(''Statement'', JArr [JObj [(''Action'', JArr [JStr ''DynamoDB:Query'']),
                                        (''Resource'', JArr [JStr ''*'',
                                           JStr ''arn:aws:dynamodb:*:*:table/mobile-short-urls''])]])])"
  by code_simp

text \<open>
  C3 as amended. \<^verbatim>\<open>update-policy.py\<close> and \<^verbatim>\<open>update-telnyx-policy.py\<close> take a
  statement whose actions are the strings \<open>names\<close> exactly when one of them is, character
  by character, \<^verbatim>\<open>secretsmanager:GetSecretValue\<close>; all three scripts report the ARN as
  already present in the resources \<open>arns\<close> exactly when one of them is, character by
  character, the ARN, and add it otherwise. No wildcard is expanded: \<open>*\<close> is a character
  like any other. \<^verbatim>\<open>update-short-urls-policy.py\<close> takes the statement exactly when one
  of the actions, in lower case, has \<^verbatim>\<open>dynamodb\<close> as a substring.
\<close>

theorem names_exact_but_dynamodb_substring:
  "statement_matches has_get_secret (JObj (AList.update ''Action'' (JArr (map JStr names)) fs)) =
     Inr (''secretsmanager:GetSecretValue'' \<in> set names) \<and>
   map_sum id fst (ensure_resource arn (JObj (AList.update ''Resource'' (JArr (map JStr arns)) fs))) =
     Inr (if arn \<in> set arns then AlreadyPresent else Added) \<and>
   statement_matches (any_dynamodb repr) (JObj (AList.update ''Action'' (JArr (map JStr names)) fs)) =
     Inr (\<exists>n\<in>set names. str_contains ''dynamodb'' (lower n))"
proof (intro conjI)
  have inj: "JStr s \<in> set (map JStr xs) \<longleftrightarrow> s \<in> set xs" for s xs
    by auto
  show "statement_matches has_get_secret (JObj (AList.update ''Action'' (JArr (map JStr names)) fs)) =
      Inr (''secretsmanager:GetSecretValue'' \<in> set names)"
    by (simp only: statement_matches_def has_get_secret_def py_get.simps update_conv' fun_upd_same
        option.case sum.case as_list.simps py_contains.simps inj)
  show "map_sum id fst (ensure_resource arn (JObj (AList.update ''Resource'' (JArr (map JStr arns)) fs))) =
      Inr (if arn \<in> set arns then AlreadyPresent else Added)"
    by (simp add: ensure_resource_report update_conv' inj del: set_map)
  show "statement_matches (any_dynamodb repr) (JObj (AList.update ''Action'' (JArr (map JStr names)) fs)) =
      Inr (\<exists>n\<in>set names. str_contains ''dynamodb'' (lower n))"
    by (simp add: statement_matches_def any_dynamodb_def update_conv' list_ex_iff)
qed

theorem names_exact_but_dynamodb_substring_witness:
  "statement_matches has_get_secret
     (JObj [(''Effect'', JStr ''Allow''),
            (''Action'', JArr [JStr ''secretsmanager:*'', JStr ''SecretsManager:getsecretvalue'',
                              JStr ''*''])])
   = Inr False \<and>
   map_sum id fst (ensure_resource telnyx_arn
     (JObj [(''Effect'', JStr ''Allow''),
            (''Resource'', JArr [JStr ''*'', JStr ''arn:aws:secretsmanager:*:*:secret:*''])]))
   = Inr Added \<and>
   statement_matches (any_dynamodb no_repr)
     (JObj [(''Effect'', JStr ''Allow''), (''Action'', JArr [JStr ''DynamoDB:Query''])])
   = Inr True"
proof -
  have l: "lower ''DynamoDB:Query'' = ''dynamodb:query''"
    by code_simp
  from names_exact_but_dynamodb_substring[of
      "[''secretsmanager:*'', ''SecretsManager:getsecretvalue'', ''*'']"
      "[(''Effect'', JStr ''Allow'')]" telnyx_arn
      "[''*'', ''arn:aws:secretsmanager:*:*:secret:*'']" no_repr]
    names_exact_but_dynamodb_substring[of "[''DynamoDB:Query'']"
      "[(''Effect'', JStr ''Allow'')]" telnyx_arn "[]" no_repr]
  show ?thesis
    by (simp add: telnyx_arn_def l)
qed

subsection \<open>C4\<close>

text \<open>
  C4 (the first matching statement). Let the document's \<^verbatim>\<open>Statement\<close> list be
  \<open>pre @ JObj fs # post\<close>, where the script's condition is false on every statement of
  \<open>pre\<close> and true on \<open>JObj fs\<close>, and let the \<^verbatim>\<open>Resource\<close> of \<open>JObj fs\<close> stand for
  the sequence \<open>rs\<close>. If the script's ARN is in \<open>rs\<close> the script returns the document
  as it was and reports \<^verbatim>\<open>already present\<close> (no change); otherwise it reports
  \<^verbatim>\<open>Added\<close> (a change) and returns the document in which that statement's
  \<^verbatim>\<open>Resource\<close> is \<open>rs\<close> with the ARN appended at the end.
\<close>

theorem first_match_gets_the_resource:
  assumes "map_of kvs ''Statement'' = Some (JArr (pre @ JObj fs # post))"
    and "sequence_of (map_of fs ''Resource'') = Some rs"
  shows
   "((\<forall>s\<in>set pre. statement_matches has_get_secret s = Inr False) \<and>
     statement_matches has_get_secret (JObj fs) = Inr True \<longrightarrow>
       update_policy (JObj kvs) =
         (if JStr backdoor_arn \<in> set rs then Inr (Some AlreadyPresent, JObj kvs)
          else Inr (Some Added, JObj (AList.update ''Statement''
            (JArr (pre @ JObj (AList.update ''Resource'' (JArr (rs @ [JStr backdoor_arn])) fs) # post))
            kvs))) \<and>
       update_telnyx_policy (JObj kvs) =
         (if JStr telnyx_arn \<in> set rs then Inr (Some AlreadyPresent, JObj kvs)
          else Inr (Some Added, JObj (AList.update ''Statement''
            (JArr (pre @ JObj (AList.update ''Resource'' (JArr (rs @ [JStr telnyx_arn])) fs) # post))
            kvs)))) \<and>
    ((\<forall>s\<in>set pre. statement_matches (any_dynamodb repr) s = Inr False) \<and>
     statement_matches (any_dynamodb repr) (JObj fs) = Inr True \<longrightarrow>
       update_short_urls_policy repr (JObj kvs) =
         (if JStr short_urls_arn \<in> set rs then Inr (Some AlreadyPresent, JObj kvs)
          else Inr (Some Added, JObj (AList.update ''Statement''
            (JArr (pre @ JObj (AList.update ''Resource'' (JArr (rs @ [JStr short_urls_arn])) fs) # post))
            kvs))))"
proof (intro conjI impI)
  assume m: "(\<forall>s\<in>set pre. statement_matches has_get_secret s = Inr False) \<and>
     statement_matches has_get_secret (JObj fs) = Inr True"
  from run_loop_first_match[OF assms conjunct1[OF m] conjunct2[OF m], of backdoor_arn]
  show "update_policy (JObj kvs) =
         (if JStr backdoor_arn \<in> set rs then Inr (Some AlreadyPresent, JObj kvs)
          else Inr (Some Added, JObj (AList.update ''Statement''
            (JArr (pre @ JObj (AList.update ''Resource'' (JArr (rs @ [JStr backdoor_arn])) fs) # post))
            kvs)))"
    by (simp add: update_policy_def)
  from run_loop_first_match[OF assms conjunct1[OF m] conjunct2[OF m], of telnyx_arn]
  show "update_telnyx_policy (JObj kvs) =
         (if JStr telnyx_arn \<in> set rs then Inr (Some AlreadyPresent, JObj kvs)
          else Inr (Some Added, JObj (AList.update ''Statement''
            (JArr (pre @ JObj (AList.update ''Resource'' (JArr (rs @ [JStr telnyx_arn])) fs) # post))
            kvs)))"
    by (simp add: update_telnyx_policy_def)
next
  assume m: "(\<forall>s\<in>set pre. statement_matches (any_dynamodb repr) s = Inr False) \<and>
     statement_matches (any_dynamodb repr) (JObj fs) = Inr True"
  from run_loop_first_match[OF assms conjunct1[OF m] conjunct2[OF m], of short_urls_arn]
  show "update_short_urls_policy repr (JObj kvs) =
         (if JStr short_urls_arn \<in> set rs then Inr (Some AlreadyPresent, JObj kvs)
          else Inr (Some Added, JObj (AList.update ''Statement''
            (JArr (pre @ JObj (AList.update ''Resource'' (JArr (rs @ [JStr short_urls_arn])) fs) # post))
            kvs)))"
    by (simp add: update_short_urls_policy_def)
qed

theorem first_match_gets_the_resource_witness:
  "update_policy
     (JObj [(''Version'', JStr ''2012-10-17''),
            (''Statement'', JArr [
               JObj [(''Effect'', JStr ''Allow''),
                     (''Action'', JArr [JStr ''logs:CreateLogGroup'', JStr ''logs:PutLogEvents'']),
                     (''Resource'', JStr ''*'')],
               JObj [(''Effect'', JStr ''Allow''),
                     (''Action'', JArr [JStr ''secretsmanager:GetSecretValue'']),
                     (''Resource'', JArr [JStr ''arn:aws:secretsmanager:*:*:secret:foo-*''])],
               JObj [(''Effect'', JStr ''Allow''),
                     (''Action'', JStr ''secretsmanager:GetSecretValue''),
                     (''Resource'', JStr ''arn:aws:secretsmanager:*:*:secret:bar-*'')]])])
   = Inr (Some Added,
      JObj [(''Version'', JStr ''2012-10-17''),
            (''Statement'', JArr [
               JObj [(''Effect'', JStr ''Allow''),
                     (''Action'', JArr [JStr ''logs:CreateLogGroup'', JStr ''logs:PutLogEvents'']),
                     (''Resource'', JStr ''*'')],
               JObj [(''Effect'', JStr ''Allow''),
                     (''Action'', JArr [JStr ''secretsmanager:GetSecretValue'']),
                     (''Resource'', JArr [JStr ''arn:aws:secretsmanager:*:*:secret:foo-*'',
                        JStr ''arn:aws:secretsmanager:*:*:secret:mobile-app/backdoor-secret-*''])],
               JObj [(''Effect'', JStr ''Allow''),
                     (''Action'', JStr ''secretsmanager:GetSecretValue''),
                     (''Resource'', JStr ''arn:aws:secretsmanager:*:*:secret:bar-*'')]])]) \<and>
   update_telnyx_policy
     (JObj [(''Version'', JStr ''2012-10-17''),
            (''Statement'', JArr [
               JObj [(''Effect'', JStr ''Allow''),
                     (''Action'', JArr [JStr ''logs:CreateLogGroup'', JStr ''logs:PutLogEvents'']),
                     (''Resource'', JStr ''*'')],
               JObj [(''Effect'', JStr ''Allow''),
                     (''Action'', JArr [JStr ''secretsmanager:GetSecretValue'']),
                     (''Resource'', JArr [JStr ''arn:aws:secretsmanager:*:*:secret:foo-*''])],
               JObj [(''Effect'', JStr ''Allow''),
                     (''Action'', JStr ''secretsmanager:GetSecretValue''),
                     (''Resource'', JStr ''arn:aws:secretsmanager:*:*:secret:bar-*'')]])])
   = Inr (Some Added,
      JObj [(''Version'', JStr ''2012-10-17''),
            (''Statement'', JArr [
               JObj [(''Effect'', JStr ''Allow''),
                     (''Action'', JArr [JStr ''logs:CreateLogGroup'', JStr ''logs:PutLogEvents'']),
                     (''Resource'', JStr ''*'')],
               JObj [(''Effect'', JStr ''Allow''),
                     (''Action'', JArr [JStr ''secretsmanager:GetSecretValue'']),
                     (''Resource'', JArr [JStr ''arn:aws:secretsmanager:*:*:secret:foo-*'',
                        JStr ''arn:aws:secretsmanager:*:*:secret:mobile-app/telnyx-api-key-*''])],
               JObj [(''Effect'', JStr ''Allow''),
                     (''Action'', JStr ''secretsmanager:GetSecretValue''),
                     (''Resource'', JStr ''arn:aws:secretsmanager:*:*:secret:bar-*'')]])]) \<and>
   update_short_urls_policy no_repr
     (JObj [(''Statement'', JArr [
               JObj [(''Effect'', JStr ''Allow''),
                     (''Action'', JStr ''logs:PutLogEvents''),
                     (''Resource'', JStr ''*'')],
               JObj [(''Effect'', JStr ''Allow''),
                     (''Action'', JArr [JStr ''dynamodb:GetItem'']),
                     (''Resource'', JArr [JStr ''arn:aws:dynamodb:*:*:table/mobile-short-urls''])]])])
   = Inr (Some AlreadyPresent,
      JObj [(''Statement'', JArr [
               JObj [(''Effect'', JStr ''Allow''),
                     (''Action'', JStr ''logs:PutLogEvents''),
                     (''Resource'', JStr ''*'')],
               JObj [(''Effect'', JStr ''Allow''),
                     (''Action'', JArr [JStr ''dynamodb:GetItem'']),
                     (''Resource'', JArr [JStr ''arn:aws:dynamodb:*:*:table/mobile-short-urls''])]])])"
proof -
  let ?logs = "JObj [(''Effect'', JStr ''Allow''),
                     (''Action'', JArr [JStr ''logs:CreateLogGroup'', JStr ''logs:PutLogEvents'']),
                     (''Resource'', JStr ''*'')]"
  let ?fs = "[(''Effect'', JStr ''Allow''),
                     (''Action'', JArr [JStr ''secretsmanager:GetSecretValue'']),
                     (''Resource'', JArr [JStr ''arn:aws:secretsmanager:*:*:secret:foo-*''])]"
  let ?last = "JObj [(''Effect'', JStr ''Allow''),
                     (''Action'', JStr ''secretsmanager:GetSecretValue''),
                     (''Resource'', JStr ''arn:aws:secretsmanager:*:*:secret:bar-*'')]"
  let ?kvs = "[(''Version'', JStr ''2012-10-17''), (''Statement'', JArr [?logs, JObj ?fs, ?last])]"
  have a1: "map_of ?kvs ''Statement'' = Some (JArr ([?logs] @ JObj ?fs # [?last]))"
    by simp
  have a2: "sequence_of (map_of ?fs ''Resource'') =
      Some [JStr ''arn:aws:secretsmanager:*:*:secret:foo-*'']"
    by simp
  have a3: "(\<forall>s\<in>set [?logs]. statement_matches has_get_secret s = Inr False) \<and>
     statement_matches has_get_secret (JObj ?fs) = Inr True"
    by (simp add: statement_matches_def has_get_secret_def)
  let ?other = "JObj [(''Effect'', JStr ''Allow''),
                     (''Action'', JStr ''logs:PutLogEvents''),
                     (''Resource'', JStr ''*'')]"
  let ?gs = "[(''Effect'', JStr ''Allow''),
                     (''Action'', JArr [JStr ''dynamodb:GetItem'']),
                     (''Resource'', JArr [JStr ''arn:aws:dynamodb:*:*:table/mobile-short-urls''])]"
  let ?lvs = "[(''Statement'', JArr [?other, JObj ?gs])]"
  have b1: "map_of ?lvs ''Statement'' = Some (JArr ([?other] @ JObj ?gs # []))"
    by simp
  have b2: "sequence_of (map_of ?gs ''Resource'') =
      Some [JStr ''arn:aws:dynamodb:*:*:table/mobile-short-urls'']"
    by simp
  have b3: "statement_matches (any_dynamodb no_repr) ?other = Inr False"
    by code_simp
  have b4: "statement_matches (any_dynamodb no_repr) (JObj ?gs) = Inr True"
    by code_simp
  from b3 b4 have b5: "(\<forall>s\<in>set [?other]. statement_matches (any_dynamodb no_repr) s = Inr False) \<and>
     statement_matches (any_dynamodb no_repr) (JObj ?gs) = Inr True"
    by simp
  from first_match_gets_the_resource[OF a1 a2, THEN conjunct1, THEN mp, OF a3]
    first_match_gets_the_resource[OF b1 b2, THEN conjunct2, THEN mp, OF b5]
  show ?thesis
    by (simp add: backdoor_arn_def telnyx_arn_def short_urls_arn_def)
qed

subsection \<open>C5\<close>

text \<open>
  C5 (non-destructive append). When a script has produced a document, its statements are
  as many as before, or one more when the script reports \<^verbatim>\<open>Created\<close>. Each statement
  of the input stands at its place in the output, either as it was or with a new value
  under \<^verbatim>\<open>Resource\<close> and nothing else touched; its \<^verbatim>\<open>Action\<close> is as it was, and
  the sequence its \<^verbatim>\<open>Resource\<close> stood for is a prefix of the one it stands for now.
\<close>

theorem statements_only_appended:
  assumes "update_policy D = Inr (r, D') \<or> update_telnyx_policy D = Inr (r, D') \<or>
    update_short_urls_policy repr D = Inr (r, D')"
  shows "length (statements_of D') =
      (if r = Some Created then Suc (length (statements_of D)) else length (statements_of D)) \<and>
    (\<forall>i<length (statements_of D).
       (statements_of D' ! i = statements_of D ! i \<or>
        (\<exists>fs v. statements_of D ! i = JObj fs \<and>
           statements_of D' ! i = JObj (AList.update ''Resource'' v fs))) \<and>
       field ''Action'' (statements_of D' ! i) = field ''Action'' (statements_of D ! i) \<and>
       prefix (resource_list (statements_of D ! i)) (resource_list (statements_of D' ! i)))"
proof -
  have loop: "length (statements_of D') = length (statements_of D) \<and>
    (\<forall>i<length (statements_of D).
       (statements_of D' ! i = statements_of D ! i \<or>
        (\<exists>fs v. statements_of D ! i = JObj fs \<and>
           statements_of D' ! i = JObj (AList.update ''Resource'' v fs))) \<and>
       field ''Action'' (statements_of D' ! i) = field ''Action'' (statements_of D ! i) \<and>
       prefix (resource_list (statements_of D ! i)) (resource_list (statements_of D' ! i)))"
    if run: "run_loop m arn D = Inr (r0, D')" for m arn r0
  proof (intro conjI allI impI)
    show "length (statements_of D') = length (statements_of D)"
      using run by (rule run_loop_length)
  next
    fix i assume i: "i < length (statements_of D)"
    from run_loop_frame(2)[OF run i]
    consider "statements_of D' ! i = statements_of D ! i"
      | fs where "statements_of D ! i = JObj fs"
        "statements_of D' ! i = JObj (AList.update ''Resource''
            (JArr (resource_list (statements_of D ! i) @ [JStr arn])) fs)"
      by blast
    then have "(statements_of D' ! i = statements_of D ! i \<or>
        (\<exists>fs v. statements_of D ! i = JObj fs \<and>
           statements_of D' ! i = JObj (AList.update ''Resource'' v fs))) \<and>
       field ''Action'' (statements_of D' ! i) = field ''Action'' (statements_of D ! i) \<and>
       prefix (resource_list (statements_of D ! i)) (resource_list (statements_of D' ! i))"
    proof cases
      case 1
      then show ?thesis by simp
    next
      case (2 fs)
      from changed_statement(1,2)[OF 2] 2 show ?thesis by blast
    qed
    then show "statements_of D' ! i = statements_of D ! i \<or>
        (\<exists>fs v. statements_of D ! i = JObj fs \<and>
           statements_of D' ! i = JObj (AList.update ''Resource'' v fs))"
      and "field ''Action'' (statements_of D' ! i) = field ''Action'' (statements_of D ! i)"
      and "prefix (resource_list (statements_of D ! i)) (resource_list (statements_of D' ! i))"
      by blast+
  qed
  from assms consider
      (policy) "update_policy D = Inr (r, D')"
    | (telnyx) "update_telnyx_policy D = Inr (r, D')"
    | (short) "update_short_urls_policy repr D = Inr (r, D')"
    by blast
  then show ?thesis
  proof cases
    case policy
    then have run: "run_loop has_get_secret backdoor_arn D = Inr (r, D')"
      by (simp add: update_policy_def)
    then have "r \<noteq> Some Created"
      by (cases r) (auto dest: run_loop_not_Created)
    with loop[OF run] show ?thesis by simp
  next
    case telnyx
    then obtain a where a: "r = Some a" "run_loop has_get_secret telnyx_arn D = Inr (Some a, D')"
      by (rule update_telnyx_policy_Inr)
    then have "r \<noteq> Some Created"
      by (auto dest: run_loop_not_Created)
    with loop[OF a(2)] show ?thesis by simp
  next
    case short
    then show ?thesis
    proof (cases rule: update_short_urls_policy_statements)
      case (found a)
      with loop[OF found(3)] show ?thesis by simp
    next
      case created
      then show ?thesis by (simp add: nth_append)
    qed
  qed
qed

theorem statements_only_appended_witness:
  "update_policy
     (JObj [(''Version'', JStr ''2012-10-17''),
            (''Statement'', JArr [
               JObj [(''Effect'', JStr ''Allow''), (''Action'', JStr ''logs:PutLogEvents''),
                     (''Resource'', JStr ''*'')],
               JObj [(''Effect'', JStr ''Allow''),
                     (''Action'', JArr [JStr ''secretsmanager:GetSecretValue'']),
                     (''Resource'', JStr ''arn:aws:secretsmanager:*:*:secret:foo-*'')]])])
   = Inr (Some Added,
      JObj [(''Version'', JStr ''2012-10-17''),
            (''Statement'', JArr [
               JObj [(''Effect'', JStr ''Allow''), (''Action'', JStr ''logs:PutLogEvents''),
                     (''Resource'', JStr ''*'')],
               JObj [(''Effect'', JStr ''Allow''),
                     (''Action'', JArr [JStr ''secretsmanager:GetSecretValue'']),
                     (''Resource'', JArr [JStr ''arn:aws:secretsmanager:*:*:secret:foo-*'',
                                         JStr backdoor_arn])]])]) \<and>
   length (statements_of
      (JObj [(''Version'', JStr ''2012-10-17''),
            (''Statement'', JArr [
               JObj [(''Effect'', JStr ''Allow''), (''Action'', JStr ''logs:PutLogEvents''),
                     (''Resource'', JStr ''*'')],
               JObj [(''Effect'', JStr ''Allow''),
                     (''Action'', JArr [JStr ''secretsmanager:GetSecretValue'']),
                     (''Resource'', JArr [JStr ''arn:aws:secretsmanager:*:*:secret:foo-*'',
                                         JStr backdoor_arn])]])])) = 2 \<and>
   prefix
     (resource_list
        (JObj [(''Effect'', JStr ''Allow''),
               (''Action'', JArr [JStr ''secretsmanager:GetSecretValue'']),
               (''Resource'', JStr ''arn:aws:secretsmanager:*:*:secret:foo-*'')]))
     (resource_list
        (JObj [(''Effect'', JStr ''Allow''),
               (''Action'', JArr [JStr ''secretsmanager:GetSecretValue'']),
               (''Resource'', JArr [JStr ''arn:aws:secretsmanager:*:*:secret:foo-*'',
                                   JStr backdoor_arn])])) \<and>
   update_telnyx_policy
     (JObj [(''Statement'', JArr [
               JObj [(''Action'', JStr ''secretsmanager:GetSecretValue''),
                     (''Resource'', JStr ''arn:aws:secretsmanager:*:*:secret:mobile-app/telnyx-api-key-*'')]])])
   = Inr (Some AlreadyPresent,
      JObj [(''Statement'', JArr [
               JObj [(''Action'', JStr ''secretsmanager:GetSecretValue''),
                     (''Resource'', JStr ''arn:aws:secretsmanager:*:*:secret:mobile-app/telnyx-api-key-*'')]])]) \<and>
   update_short_urls_policy no_repr (JObj [(''Statement'', JArr [JObj []])])
   = Inr (Some Created, JObj [(''Statement'', JArr [JObj [], new_statement])]) \<and>
   length (statements_of (JObj [(''Statement'', JArr [JObj [], new_statement])])) = 2"
proof -
  let ?D = "JObj [(''Version'', JStr ''2012-10-17''),
            (''Statement'', JArr [
               JObj [(''Effect'', JStr ''Allow''), (''Action'', JStr ''logs:PutLogEvents''),
                     (''Resource'', JStr ''*'')],
               JObj [(''Effect'', JStr ''Allow''),
                     (''Action'', JArr [JStr ''secretsmanager:GetSecretValue'']),
                     (''Resource'', JStr ''arn:aws:secretsmanager:*:*:secret:foo-*'')]])]"
  let ?D' = "JObj [(''Version'', JStr ''2012-10-17''),
            (''Statement'', JArr [
               JObj [(''Effect'', JStr ''Allow''), (''Action'', JStr ''logs:PutLogEvents''),
                     (''Resource'', JStr ''*'')],
               JObj [(''Effect'', JStr ''Allow''),
                     (''Action'', JArr [JStr ''secretsmanager:GetSecretValue'']),
                     (''Resource'', JArr [JStr ''arn:aws:secretsmanager:*:*:secret:foo-*'',
                                         JStr backdoor_arn])]])]"
  let ?T = "JObj [(''Statement'', JArr [
               JObj [(''Action'', JStr ''secretsmanager:GetSecretValue''),
                     (''Resource'', JStr ''arn:aws:secretsmanager:*:*:secret:mobile-app/telnyx-api-key-*'')]])]"
  have h1: "update_policy ?D = Inr (Some Added, ?D')"
    by (simp add: update_policy_def run_loop_def statement_matches_def has_get_secret_def
        ensure_resource_def backdoor_arn_def)
  have h2: "update_telnyx_policy ?T = Inr (Some AlreadyPresent, ?T)"
    by (simp add: update_telnyx_policy_def run_loop_def statement_matches_def has_get_secret_def
        ensure_resource_def telnyx_arn_def)
  have h3: "update_short_urls_policy no_repr (JObj [(''Statement'', JArr [JObj []])])
      = Inr (Some Created, JObj [(''Statement'', JArr [JObj [], new_statement])])"
    by (simp add: update_short_urls_policy_def run_loop_def statement_matches_def
        any_dynamodb_def)
  have s: "statements_of ?D = [JObj [(''Effect'', JStr ''Allow''), (''Action'', JStr ''logs:PutLogEvents''),
                     (''Resource'', JStr ''*'')],
               JObj [(''Effect'', JStr ''Allow''),
                     (''Action'', JArr [JStr ''secretsmanager:GetSecretValue'']),
                     (''Resource'', JStr ''arn:aws:secretsmanager:*:*:secret:foo-*'')]]"
    "statements_of ?D' = [JObj [(''Effect'', JStr ''Allow''), (''Action'', JStr ''logs:PutLogEvents''),
                     (''Resource'', JStr ''*'')],
               JObj [(''Effect'', JStr ''Allow''),
                     (''Action'', JArr [JStr ''secretsmanager:GetSecretValue'']),
                     (''Resource'', JArr [JStr ''arn:aws:secretsmanager:*:*:secret:foo-*'',
                                         JStr backdoor_arn])]]"
    by (simp_all add: statements_of_def)
  from statements_only_appended[of ?D "Some Added" ?D' no_repr, OF disjI1[OF h1]]
  have "length (statements_of ?D') = length (statements_of ?D) \<and>
    (1 < length (statements_of ?D) \<longrightarrow>
      prefix (resource_list (statements_of ?D ! 1)) (resource_list (statements_of ?D' ! 1)))"
    by simp
  then have "length (statements_of ?D') = 2 \<and>
    prefix (resource_list (statements_of ?D ! 1)) (resource_list (statements_of ?D' ! 1))"
    unfolding s by simp
  moreover
  from statements_only_appended[of "JObj [(''Statement'', JArr [JObj []])]" "Some Created"
      "JObj [(''Statement'', JArr [JObj [], new_statement])]" no_repr, OF disjI2[OF disjI2[OF h3]]]
  have "length (statements_of (JObj [(''Statement'', JArr [JObj [], new_statement])])) = 2"
    by (simp add: statements_of_def)
  ultimately show ?thesis
    using h1 h2 h3 unfolding s by simp
qed

subsection \<open>C6\<close>




subsection \<open>C7\<close>

text \<open>
  C7 (bare string or one-element list). A statement whose \<^verbatim>\<open>Action\<close> is the bare
  string \<open>x\<close> and the same statement with \<^verbatim>\<open>Action\<close> the list of \<open>x\<close> alone get the
  same answer from every condition \<open>is_match\<close>, and the same holds for \<^verbatim>\<open>Resource\<close> and
  the test whether the ARN is there. So each script gives the same report, or stops with
  the same error, on two documents that differ only in that one statement has \<open>x\<close> bare
  in the one and in a list in the other, under \<^verbatim>\<open>Action\<close> or under \<^verbatim>\<open>Resource\<close>.
\<close>

theorem bare_string_same_as_one_element_list:
  "statement_matches is_match (JObj (AList.update ''Action'' (JStr x) fs)) =
     statement_matches is_match (JObj (AList.update ''Action'' (JArr [JStr x]) fs)) \<and>
   map_sum id fst (ensure_resource arn (JObj (AList.update ''Resource'' (JStr x) fs))) =
     map_sum id fst (ensure_resource arn (JObj (AList.update ''Resource'' (JArr [JStr x]) fs))) \<and>
   (\<forall>key\<in>{''Action'', ''Resource''}.
      map_sum id fst (update_policy (JObj (AList.update ''Statement''
          (JArr (pre @ JObj (AList.update key (JStr x) fs) # post)) kvs))) =
      map_sum id fst (update_policy (JObj (AList.update ''Statement''
          (JArr (pre @ JObj (AList.update key (JArr [JStr x]) fs) # post)) kvs))) \<and>
      map_sum id fst (update_telnyx_policy (JObj (AList.update ''Statement''
          (JArr (pre @ JObj (AList.update key (JStr x) fs) # post)) kvs))) =
      map_sum id fst (update_telnyx_policy (JObj (AList.update ''Statement''
          (JArr (pre @ JObj (AList.update key (JArr [JStr x]) fs) # post)) kvs))) \<and>
      map_sum id fst (update_short_urls_policy repr (JObj (AList.update ''Statement''
          (JArr (pre @ JObj (AList.update key (JStr x) fs) # post)) kvs))) =
      map_sum id fst (update_short_urls_policy repr (JObj (AList.update ''Statement''
          (JArr (pre @ JObj (AList.update key (JArr [JStr x]) fs) # post)) kvs))))"
proof (intro conjI ballI)
  show "statement_matches is_match (JObj (AList.update ''Action'' (JStr x) fs)) =
      statement_matches is_match (JObj (AList.update ''Action'' (JArr [JStr x]) fs))"
    by (rule bare_string_statement(1)) simp
  show "map_sum id fst (ensure_resource arn (JObj (AList.update ''Resource'' (JStr x) fs))) =
      map_sum id fst (ensure_resource arn (JObj (AList.update ''Resource'' (JArr [JStr x]) fs)))"
    by (rule bare_string_statement(2)) simp
next
  fix key :: string assume "key \<in> {''Action'', ''Resource''}"
  then have key: "key = ''Action'' \<or> key = ''Resource''" by simp
  have loop: "map_sum id fst (run_loop m a (JObj (AList.update ''Statement''
        (JArr (pre @ JObj (AList.update key (JStr x) fs) # post)) kvs))) =
      map_sum id fst (run_loop m a (JObj (AList.update ''Statement''
        (JArr (pre @ JObj (AList.update key (JArr [JStr x]) fs) # post)) kvs)))" for m a
    using bare_string_statement[OF key] by (rule run_loop_same_report)
  show "map_sum id fst (update_policy (JObj (AList.update ''Statement''
          (JArr (pre @ JObj (AList.update key (JStr x) fs) # post)) kvs))) =
      map_sum id fst (update_policy (JObj (AList.update ''Statement''
          (JArr (pre @ JObj (AList.update key (JArr [JStr x]) fs) # post)) kvs)))"
    unfolding update_policy_def by (rule loop)
  show "map_sum id fst (update_telnyx_policy (JObj (AList.update ''Statement''
          (JArr (pre @ JObj (AList.update key (JStr x) fs) # post)) kvs))) =
      map_sum id fst (update_telnyx_policy (JObj (AList.update ''Statement''
          (JArr (pre @ JObj (AList.update key (JArr [JStr x]) fs) # post)) kvs)))"
    unfolding update_telnyx_policy_report loop ..
  show "map_sum id fst (update_short_urls_policy repr (JObj (AList.update ''Statement''
          (JArr (pre @ JObj (AList.update key (JStr x) fs) # post)) kvs))) =
      map_sum id fst (update_short_urls_policy repr (JObj (AList.update ''Statement''
          (JArr (pre @ JObj (AList.update key (JArr [JStr x]) fs) # post)) kvs)))"
    unfolding update_short_urls_policy_report loop ..
qed

theorem bare_string_same_as_one_element_list_witness:
  "map_sum id fst (update_policy
     (JObj [(''Statement'', JArr [JObj [(''Effect'', JStr ''Allow''),
                                       (''Action'', JStr ''secretsmanager:GetSecretValue'')]])]))
   = Inr (Some Added) \<and>
   map_sum id fst (update_policy
     (JObj [(''Statement'', JArr [JObj [(''Effect'', JStr ''Allow''),
                                       (''Action'', JArr [JStr ''secretsmanager:GetSecretValue''])]])]))
   = Inr (Some Added) \<and>
   map_sum id fst (update_telnyx_policy
     (JObj [(''Statement'', JArr [JObj [(''Action'', JStr ''secretsmanager:GetSecretValue''),
                                       (''Resource'', JStr telnyx_arn)]])]))
   = Inr (Some AlreadyPresent) \<and>
   map_sum id fst (update_telnyx_policy
     (JObj [(''Statement'', JArr [JObj [(''Action'', JStr ''secretsmanager:GetSecretValue''),
                                       (''Resource'', JArr [JStr telnyx_arn])]])]))
   = Inr (Some AlreadyPresent)"
proof -
  have a: "map_sum id fst (update_policy
     (JObj [(''Statement'', JArr [JObj [(''Effect'', JStr ''Allow''),
                                       (''Action'', JStr ''secretsmanager:GetSecretValue'')]])]))
     = Inr (Some Added)"
    by (simp add: update_policy_def run_loop_def statement_matches_def has_get_secret_def
        ensure_resource_def backdoor_arn_def)
  have b: "map_sum id fst (update_telnyx_policy
     (JObj [(''Statement'', JArr [JObj [(''Action'', JStr ''secretsmanager:GetSecretValue''),
                                       (''Resource'', JStr telnyx_arn)]])]))
     = Inr (Some AlreadyPresent)"
    by (simp add: update_telnyx_policy_def run_loop_def statement_matches_def has_get_secret_def
        ensure_resource_def telnyx_arn_def)
  have k: "''Action'' \<in> {''Action'', ''Resource''}" "''Resource'' \<in> {''Action'', ''Resource''}"
    by simp_all
  from bare_string_same_as_one_element_list[of _ "''secretsmanager:GetSecretValue''"
      "[(''Effect'', JStr ''Allow'')]" _ "[]" "[]" "[]" no_repr,
      THEN conjunct2, THEN conjunct2, THEN bspec, OF k(1), THEN conjunct1]
    bare_string_same_as_one_element_list[of _ telnyx_arn
      "[(''Action'', JStr ''secretsmanager:GetSecretValue'')]" _ "[]" "[]" "[]" no_repr,
      THEN conjunct2, THEN conjunct2, THEN bspec, OF k(2), THEN conjunct2, THEN conjunct1]
    a b
  show ?thesis by simp
qed

subsection \<open>C8\<close>

text \<open>
  C8 (the fallback statement). When \<^verbatim>\<open>Statement\<close> is a list and the DynamoDB
  condition is false on every statement of it, \<^verbatim>\<open>update-short-urls-policy.py\<close>
  reports \<^verbatim>\<open>Created\<close> (a change) and returns the document with \<open>new_statement\<close>,
  as it is written in the script, appended at the end of the list: one statement more,
  the others as they were.
\<close>

theorem no_match_appends_new_statement:
  assumes "map_of kvs ''Statement'' = Some (JArr xs)"
    and "\<forall>s\<in>set xs. statement_matches (any_dynamodb repr) s = Inr False"
  shows "update_short_urls_policy repr (JObj kvs) =
      Inr (Some Created, JObj (AList.update ''Statement'' (JArr (xs @ [new_statement])) kvs)) \<and>
    changed (Some Created) \<and>
    statements_of (JObj (AList.update ''Statement'' (JArr (xs @ [new_statement])) kvs)) =
      statements_of (JObj kvs) @ [new_statement] \<and>
    length (statements_of (JObj (AList.update ''Statement'' (JArr (xs @ [new_statement])) kvs))) =
      Suc (length (statements_of (JObj kvs)))"
proof -
  have "statements_of (JObj (AList.update ''Statement'' (JArr (xs @ [new_statement])) kvs))
      = xs @ [new_statement]"
    by (simp add: statements_of_def update_conv')
  moreover have "statements_of (JObj kvs) = xs"
    using assms(1) by (simp add: statements_of_def)
  ultimately show ?thesis
    using update_short_urls_policy_create[OF assms] by simp
qed

theorem no_match_appends_new_statement_witness:
  "update_short_urls_policy no_repr
      (JObj [(''Version'', JStr ''2012-10-17''),
             (''Statement'', JArr [JObj [(''Effect'', JStr ''Allow''),
                                        (''Action'', JArr [JStr ''secretsmanager:GetSecretValue'']),
                                        (''Resource'', JStr ''*'')]])])
   = Inr (Some Created,
       JObj [(''Version'', JStr ''2012-10-17''),
             (''Statement'', JArr [JObj [(''Effect'', JStr ''Allow''),
                                        (''Action'', JArr [JStr ''secretsmanager:GetSecretValue'']),
                                        (''Resource'', JStr ''*'')],
                                  new_statement])]) \<and>
   length (statements_of
       (JObj [(''Version'', JStr ''2012-10-17''),
             (''Statement'', JArr [JObj [(''Effect'', JStr ''Allow''),
                                        (''Action'', JArr [JStr ''secretsmanager:GetSecretValue'']),
                                        (''Resource'', JStr ''*'')],
                                  new_statement])])) = 2"
proof -
  let ?st = "JObj [(''Effect'', JStr ''Allow''),
                   (''Action'', JArr [JStr ''secretsmanager:GetSecretValue'']),
                   (''Resource'', JStr ''*'')]"
  let ?kvs = "[(''Version'', JStr ''2012-10-17''), (''Statement'', JArr [?st])]"
  have a1: "map_of ?kvs ''Statement'' = Some (JArr [?st])"
    by simp
  have "statement_matches (any_dynamodb no_repr) ?st = Inr False"
    by code_simp
  then have a2: "\<forall>s\<in>set [?st]. statement_matches (any_dynamodb no_repr) s = Inr False"
    by simp
  have "statements_of (JObj ?kvs) = [?st]"
    by (simp add: statements_of_def)
  with no_match_appends_new_statement[OF a1 a2] show ?thesis
    by simp
qed

subsection \<open>C9\<close>

text \<open>
  C9 (frame). When a script has produced a document, every key of the document other than
  \<^verbatim>\<open>Statement\<close> has the value it had, and a statement of the input that is not
  identical in the output is the first one on which the script's condition is true (the
  condition is false on every statement before it) and has every field other than
  \<^verbatim>\<open>Resource\<close> as it was. The statement that \<^verbatim>\<open>update-short-urls-policy.py\<close> appends
  when it finds none is not a statement of the input.
\<close>

theorem only_resource_of_first_match_changes:
  "(update_policy D = Inr (r, D') \<or> update_telnyx_policy D = Inr (r, D') \<longrightarrow>
      (\<forall>k. k \<noteq> ''Statement'' \<longrightarrow> field k D' = field k D) \<and>
      (\<forall>i<length (statements_of D). statements_of D' ! i \<noteq> statements_of D ! i \<longrightarrow>
         statement_matches has_get_secret (statements_of D ! i) = Inr True \<and>
         (\<forall>j<i. statement_matches has_get_secret (statements_of D ! j) = Inr False) \<and>
         (\<forall>k. k \<noteq> ''Resource'' \<longrightarrow>
            field k (statements_of D' ! i) = field k (statements_of D ! i)))) \<and>
   (update_short_urls_policy repr D = Inr (r, D') \<longrightarrow>
      (\<forall>k. k \<noteq> ''Statement'' \<longrightarrow> field k D' = field k D) \<and>
      (\<forall>i<length (statements_of D). statements_of D' ! i \<noteq> statements_of D ! i \<longrightarrow>
         statement_matches (any_dynamodb repr) (statements_of D ! i) = Inr True \<and>
         (\<forall>j<i. statement_matches (any_dynamodb repr) (statements_of D ! j) = Inr False) \<and>
         (\<forall>k. k \<noteq> ''Resource'' \<longrightarrow>
            field k (statements_of D' ! i) = field k (statements_of D ! i))))"
proof (rule conjI; rule impI)
  assume "update_policy D = Inr (r, D') \<or> update_telnyx_policy D = Inr (r, D')"
  then obtain arn r0 where "run_loop has_get_secret arn D = Inr (r0, D')"
    by (auto simp: update_policy_def elim: update_telnyx_policy_Inr)
  then show "(\<forall>k. k \<noteq> ''Statement'' \<longrightarrow> field k D' = field k D) \<and>
      (\<forall>i<length (statements_of D). statements_of D' ! i \<noteq> statements_of D ! i \<longrightarrow>
         statement_matches has_get_secret (statements_of D ! i) = Inr True \<and>
         (\<forall>j<i. statement_matches has_get_secret (statements_of D ! j) = Inr False) \<and>
         (\<forall>k. k \<noteq> ''Resource'' \<longrightarrow>
            field k (statements_of D' ! i) = field k (statements_of D ! i)))"
    by (rule run_loop_only_resource)
next
  assume "update_short_urls_policy repr D = Inr (r, D')"
  then show "(\<forall>k. k \<noteq> ''Statement'' \<longrightarrow> field k D' = field k D) \<and>
      (\<forall>i<length (statements_of D). statements_of D' ! i \<noteq> statements_of D ! i \<longrightarrow>
         statement_matches (any_dynamodb repr) (statements_of D ! i) = Inr True \<and>
         (\<forall>j<i. statement_matches (any_dynamodb repr) (statements_of D ! j) = Inr False) \<and>
         (\<forall>k. k \<noteq> ''Resource'' \<longrightarrow>
            field k (statements_of D' ! i) = field k (statements_of D ! i)))"
  proof (cases rule: update_short_urls_policy_statements)
    case (found a)
    from found(3) show ?thesis by (rule run_loop_only_resource)
  next
    case created
    then show ?thesis by (simp add: nth_append)
  qed
qed

theorem only_resource_of_first_match_changes_witness:
  "update_telnyx_policy
     (JObj [(''Version'', JStr ''2012-10-17''),
            (''Statement'', JArr [
               JObj [(''Sid'', JStr ''Logs''), (''Effect'', JStr ''Allow''),
                     (''Action'', JStr ''logs:PutLogEvents''), (''Resource'', JStr ''*'')],
               JObj [(''Sid'', JStr ''Secrets''), (''Effect'', JStr ''Allow''),
                     (''Action'', JStr ''secretsmanager:GetSecretValue''),
                     (''Resource'', JStr ''arn:aws:secretsmanager:*:*:secret:foo-*'')]])])
   = Inr (Some Added,
      JObj [(''Version'', JStr ''2012-10-17''),
            (''Statement'', JArr [
               JObj [(''Sid'', JStr ''Logs''), (''Effect'', JStr ''Allow''),
                     (''Action'', JStr ''logs:PutLogEvents''), (''Resource'', JStr ''*'')],
               JObj [(''Sid'', JStr ''Secrets''), (''Effect'', JStr ''Allow''),
                     (''Action'', JStr ''secretsmanager:GetSecretValue''),
                     (''Resource'', JArr [JStr ''arn:aws:secretsmanager:*:*:secret:foo-*'',
                                         JStr telnyx_arn])]])]) \<and>
   field ''Version''
     (JObj [(''Version'', JStr ''2012-10-17''),
            (''Statement'', JArr [
               JObj [(''Sid'', JStr ''Logs''), (''Effect'', JStr ''Allow''),
                     (''Action'', JStr ''logs:PutLogEvents''), (''Resource'', JStr ''*'')],
               JObj [(''Sid'', JStr ''Secrets''), (''Effect'', JStr ''Allow''),
                     (''Action'', JStr ''secretsmanager:GetSecretValue''),
                     (''Resource'', JArr [JStr ''arn:aws:secretsmanager:*:*:secret:foo-*'',
                                         JStr telnyx_arn])]])])
   = Some (JStr ''2012-10-17'') \<and>
   statement_matches has_get_secret
     (JObj [(''Sid'', JStr ''Secrets''), (''Effect'', JStr ''Allow''),
            (''Action'', JStr ''secretsmanager:GetSecretValue''),
            (''Resource'', JStr ''arn:aws:secretsmanager:*:*:secret:foo-*'')]) = Inr True \<and>
   field ''Sid''
     (JObj [(''Sid'', JStr ''Secrets''), (''Effect'', JStr ''Allow''),
            (''Action'', JStr ''secretsmanager:GetSecretValue''),
            (''Resource'', JArr [JStr ''arn:aws:secretsmanager:*:*:secret:foo-*'',
                                JStr telnyx_arn])])
   = Some (JStr ''Secrets'') \<and>
   update_short_urls_policy no_repr
     (JObj [(''Version'', JStr ''2012-10-17''),
            (''Statement'', JArr [JObj [(''Sid'', JStr ''Table''), (''Action'', JStr ''dynamodb:*'')]])])
   = Inr (Some Added,
      JObj [(''Version'', JStr ''2012-10-17''),
            (''Statement'', JArr [JObj [(''Sid'', JStr ''Table''), (''Action'', JStr ''dynamodb:*''),
                                       (''Resource'', JArr [JStr short_urls_arn])]])]) \<and>
   field ''Action''
     (JObj [(''Sid'', JStr ''Table''), (''Action'', JStr ''dynamodb:*''),
            (''Resource'', JArr [JStr short_urls_arn])])
   = Some (JStr ''dynamodb:*'')"
proof -
  let ?logs = "JObj [(''Sid'', JStr ''Logs''), (''Effect'', JStr ''Allow''),
                     (''Action'', JStr ''logs:PutLogEvents''), (''Resource'', JStr ''*'')]"
  let ?st = "JObj [(''Sid'', JStr ''Secrets''), (''Effect'', JStr ''Allow''),
                     (''Action'', JStr ''secretsmanager:GetSecretValue''),
                     (''Resource'', JStr ''arn:aws:secretsmanager:*:*:secret:foo-*'')]"
  let ?st' = "JObj [(''Sid'', JStr ''Secrets''), (''Effect'', JStr ''Allow''),
                     (''Action'', JStr ''secretsmanager:GetSecretValue''),
                     (''Resource'', JArr [JStr ''arn:aws:secretsmanager:*:*:secret:foo-*'',
                                         JStr telnyx_arn])]"
  let ?D = "JObj [(''Version'', JStr ''2012-10-17''), (''Statement'', JArr [?logs, ?st])]"
  let ?D' = "JObj [(''Version'', JStr ''2012-10-17''), (''Statement'', JArr [?logs, ?st'])]"
  let ?t = "JObj [(''Sid'', JStr ''Table''), (''Action'', JStr ''dynamodb:*'')]"
  let ?t' = "JObj [(''Sid'', JStr ''Table''), (''Action'', JStr ''dynamodb:*''),
                   (''Resource'', JArr [JStr short_urls_arn])]"
  let ?E = "JObj [(''Version'', JStr ''2012-10-17''), (''Statement'', JArr [?t])]"
  let ?E' = "JObj [(''Version'', JStr ''2012-10-17''), (''Statement'', JArr [?t'])]"
  have h1: "update_telnyx_policy ?D = Inr (Some Added, ?D')"
    by (simp add: update_telnyx_policy_def run_loop_def statement_matches_def has_get_secret_def
        ensure_resource_def telnyx_arn_def)
  have m: "statement_matches (any_dynamodb no_repr) ?t = Inr True"
    by code_simp
  have h2: "update_short_urls_policy no_repr ?E = Inr (Some Added, ?E')"
    by (simp add: update_short_urls_policy_def run_loop_def m ensure_resource_def
        short_urls_arn_def)
  have s: "statements_of ?D = [?logs, ?st]" "statements_of ?D' = [?logs, ?st']"
    "statements_of ?E = [?t]" "statements_of ?E' = [?t']"
    by (simp_all add: statements_of_def)
  from only_resource_of_first_match_changes[of ?D "Some Added" ?D' no_repr,
      THEN conjunct1, THEN mp, OF disjI2[OF h1]]
  have "field ''Version'' ?D' = field ''Version'' ?D \<and>
    (1 < length (statements_of ?D) \<longrightarrow> statements_of ?D' ! 1 \<noteq> statements_of ?D ! 1 \<longrightarrow>
       statement_matches has_get_secret (statements_of ?D ! 1) = Inr True \<and>
       field ''Sid'' (statements_of ?D' ! 1) = field ''Sid'' (statements_of ?D ! 1))"
    by simp
  then have a: "field ''Version'' ?D' = Some (JStr ''2012-10-17'') \<and>
    statement_matches has_get_secret ?st = Inr True \<and>
    field ''Sid'' ?st' = Some (JStr ''Secrets'')"
    unfolding s by (simp add: telnyx_arn_def)
  from only_resource_of_first_match_changes[of ?E "Some Added" ?E' no_repr,
      THEN conjunct2, THEN mp, OF h2]
  have "0 < length (statements_of ?E) \<longrightarrow> statements_of ?E' ! 0 \<noteq> statements_of ?E ! 0 \<longrightarrow>
       field ''Action'' (statements_of ?E' ! 0) = field ''Action'' (statements_of ?E ! 0)"
    by simp
  then have b: "field ''Action'' ?t' = Some (JStr ''dynamodb:*'')"
    unfolding s by simp
  from h1 h2 a b show ?thesis by simp
qed

subsection \<open>C10\<close>

text \<open>
  C10 (a matching statement without \<^verbatim>\<open>Resource\<close>), as the claim states it, fails: the
  loop ends at the \<^verbatim>\<open>break\<close> after the first statement on which the condition is true.
  Here the second statement matches and has no \<^verbatim>\<open>Resource\<close>, but the first matches
  too and has the ARN: the script reports \<^verbatim>\<open>already present\<close> and the second
  statement is left without \<^verbatim>\<open>Resource\<close>.
\<close>

theorem later_match_without_resource_untouched:
  "statement_matches has_get_secret
     (JObj [(''Effect'', JStr ''Allow''), (''Action'', JStr ''secretsmanager:GetSecretValue'')])
     = Inr True \<and>
   field ''Resource''
     (JObj [(''Effect'', JStr ''Allow''), (''Action'', JStr ''secretsmanager:GetSecretValue'')])
     = None \<and>
   update_policy
     (JObj [(''Statement'', JArr [
        JObj [(''Effect'', JStr ''Allow''),
              (''Action'', JStr ''secretsmanager:GetSecretValue''),
              (''Resource'', JArr [JStr
                 ''arn:aws:secretsmanager:*:*:secret:mobile-app/backdoor-secret-*''])],
        JObj [(''Effect'', JStr ''Allow''),
              (''Action'', JStr ''secretsmanager:GetSecretValue'')]])])
   = Inr (Some AlreadyPresent,
      JObj [(''Statement'', JArr [
        JObj [(''Effect'', JStr ''Allow''),
              (''Action'', JStr ''secretsmanager:GetSecretValue''),
              (''Resource'', JArr [JStr
                 ''arn:aws:secretsmanager:*:*:secret:mobile-app/backdoor-secret-*''])],
        JObj [(''Effect'', JStr ''Allow''),
              (''Action'', JStr ''secretsmanager:GetSecretValue'')]])]) \<and>
   \<not> changed (Some AlreadyPresent)"
  by (simp add: update_policy_def run_loop_def statement_matches_def has_get_secret_def
      ensure_resource_def backdoor_arn_def)

text \<open>
  C10 as amended. When the first statement on which the script's condition is true, the
  one statement the loop works on, has no \<^verbatim>\<open>Resource\<close> field, the script takes the
  missing field for an empty list: it reports \<^verbatim>\<open>Added\<close> (a change) and that statement
  gets, after its other fields, a \<^verbatim>\<open>Resource\<close> that is the list of the script's ARN
  alone.
\<close>

theorem missing_resource_becomes_the_arn:
  assumes "map_of kvs ''Statement'' = Some (JArr (pre @ JObj fs # post))"
    and "map_of fs ''Resource'' = None"
  shows
   "((\<forall>s\<in>set pre. statement_matches has_get_secret s = Inr False) \<and>
     statement_matches has_get_secret (JObj fs) = Inr True \<longrightarrow>
       update_policy (JObj kvs) = Inr (Some Added, JObj (AList.update ''Statement''
            (JArr (pre @ JObj (fs @ [(''Resource'', JArr [JStr backdoor_arn])]) # post)) kvs)) \<and>
       update_telnyx_policy (JObj kvs) = Inr (Some Added, JObj (AList.update ''Statement''
            (JArr (pre @ JObj (fs @ [(''Resource'', JArr [JStr telnyx_arn])]) # post)) kvs))) \<and>
    ((\<forall>s\<in>set pre. statement_matches (any_dynamodb repr) s = Inr False) \<and>
     statement_matches (any_dynamodb repr) (JObj fs) = Inr True \<longrightarrow>
       update_short_urls_policy repr (JObj kvs) = Inr (Some Added, JObj (AList.update ''Statement''
            (JArr (pre @ JObj (fs @ [(''Resource'', JArr [JStr short_urls_arn])]) # post)) kvs))) \<and>
    changed (Some Added)"
proof -
  have seq: "sequence_of (map_of fs ''Resource'') = Some []"
    using assms(2) by simp
  have run: "run_loop m arn (JObj kvs) = Inr (Some Added, JObj (AList.update ''Statement''
      (JArr (pre @ JObj (fs @ [(''Resource'', JArr [JStr arn])]) # post)) kvs))"
    if "\<forall>s\<in>set pre. statement_matches m s = Inr False"
      and "statement_matches m (JObj fs) = Inr True" for m arn
    using run_loop_first_match[OF assms(1) seq that, of arn] assms(2)
    by (simp add: update_missing)
  show ?thesis
    by (simp add: run update_policy_def update_telnyx_policy_def update_short_urls_policy_def)
qed

theorem missing_resource_becomes_the_arn_witness:
  "update_policy
     (JObj [(''Statement'', JArr [
        JObj [(''Effect'', JStr ''Allow''), (''Action'', JStr ''s3:GetObject'')],
        JObj [(''Action'', JStr ''secretsmanager:GetSecretValue''), (''Effect'', JStr ''Allow'')]])])
   = Inr (Some Added,
      JObj [(''Statement'', JArr [
        JObj [(''Effect'', JStr ''Allow''), (''Action'', JStr ''s3:GetObject'')],
        JObj [(''Action'', JStr ''secretsmanager:GetSecretValue''), (''Effect'', JStr ''Allow''),
              (''Resource'', JArr [JStr backdoor_arn])]])]) \<and>
   update_telnyx_policy
     (JObj [(''Statement'', JArr [
        JObj [(''Effect'', JStr ''Allow''), (''Action'', JStr ''s3:GetObject'')],
        JObj [(''Action'', JStr ''secretsmanager:GetSecretValue''), (''Effect'', JStr ''Allow'')]])])
   = Inr (Some Added,
      JObj [(''Statement'', JArr [
        JObj [(''Effect'', JStr ''Allow''), (''Action'', JStr ''s3:GetObject'')],
        JObj [(''Action'', JStr ''secretsmanager:GetSecretValue''), (''Effect'', JStr ''Allow''),
              (''Resource'', JArr [JStr telnyx_arn])]])]) \<and>
   update_short_urls_policy no_repr
     (JObj [(''Statement'', JArr [
        JObj [(''Effect'', JStr ''Allow''), (''Action'', JStr ''s3:GetObject'')],
        JObj [(''Action'', JStr ''dynamodb:Query''), (''Effect'', JStr ''Allow'')]])])
   = Inr (Some Added,
      JObj [(''Statement'', JArr [
        JObj [(''Effect'', JStr ''Allow''), (''Action'', JStr ''s3:GetObject'')],
        JObj [(''Action'', JStr ''dynamodb:Query''), (''Effect'', JStr ''Allow''),
              (''Resource'', JArr [JStr short_urls_arn])]])])"
proof -
  let ?s3 = "JObj [(''Effect'', JStr ''Allow''), (''Action'', JStr ''s3:GetObject'')]"
  let ?fs = "[(''Action'', JStr ''secretsmanager:GetSecretValue''), (''Effect'', JStr ''Allow'')]"
  let ?gs = "[(''Action'', JStr ''dynamodb:Query''), (''Effect'', JStr ''Allow'')]"
  have a1: "map_of [(''Statement'', JArr [?s3, JObj ?fs])] ''Statement''
      = Some (JArr ([?s3] @ JObj ?fs # []))"
    by simp
  have a2: "map_of ?fs ''Resource'' = None"
    by simp
  have a3: "(\<forall>s\<in>set [?s3]. statement_matches has_get_secret s = Inr False) \<and>
     statement_matches has_get_secret (JObj ?fs) = Inr True"
    by (simp add: statement_matches_def has_get_secret_def)
  have b1: "map_of [(''Statement'', JArr [?s3, JObj ?gs])] ''Statement''
      = Some (JArr ([?s3] @ JObj ?gs # []))"
    by simp
  have b2: "map_of ?gs ''Resource'' = None"
    by simp
  have b3: "statement_matches (any_dynamodb no_repr) ?s3 = Inr False"
    by code_simp
  have b4: "statement_matches (any_dynamodb no_repr) (JObj ?gs) = Inr True"
    by code_simp
  from b3 b4 have b5: "(\<forall>s\<in>set [?s3]. statement_matches (any_dynamodb no_repr) s = Inr False) \<and>
     statement_matches (any_dynamodb no_repr) (JObj ?gs) = Inr True"
    by simp
  from missing_resource_becomes_the_arn[OF a1 a2, THEN conjunct1, THEN mp, OF a3]
    missing_resource_becomes_the_arn[OF b1 b2, THEN conjunct2, THEN conjunct1, THEN mp, OF b5]
  show ?thesis
    by simp
qed

end
